theory Spec2Isabelle
  imports Main "HOL-Library.Sublist"
begin

section \<open>Python values and the operations the sources use on them\<close>

text \<open>
  The services receive JSON documents and pass the parsed values around untyped, so the
  model keeps the values as Python has them after \<open>json.loads\<close>: \<open>None\<close>, booleans,
  integers, strings, lists and dictionaries. A dictionary is an association list; \<open>get\<close>
  reads the first binding of a key, so a document is taken with distinct keys in every
  object, as \<open>json.loads\<close> delivers it. Floating point numbers are not modelled.
  A string is a list of code points below 256.
\<close>

datatype json =
    JNull
  | JBool bool
  | JNum int
  | JStr string
  | JArr "json list"
  | JObj "(string \<times> json) list"

datatype py_error =
    AttributeError string
  | TypeError string
  | IndexError string
  | RequestException string
  | JSONDecodeError string
  | DbError string
  | OverflowError string
  | HTTPException nat string

text \<open>\<open>str(e)\<close> of an exception, as the handlers print it.\<close>

fun exn_str :: "py_error \<Rightarrow> string" where
  "exn_str (AttributeError m) = m"
| "exn_str (TypeError m) = m"
| "exn_str (IndexError m) = m"
| "exn_str (RequestException m) = m"
| "exn_str (JSONDecodeError m) = m"
| "exn_str (DbError m) = m"
| "exn_str (OverflowError m) = m"
| "exn_str (HTTPException c m) = m"

text \<open>Truth value testing: what \<open>if v:\<close> and \<open>v or w\<close> look at.\<close>

fun truthy :: "json \<Rightarrow> bool" where
  "truthy JNull = False"
| "truthy (JBool b) = b"
| "truthy (JNum n) = (n \<noteq> 0)"
| "truthy (JStr s) = (s \<noteq> [])"
| "truthy (JArr xs) = (xs \<noteq> [])"
| "truthy (JObj kvs) = (kvs \<noteq> [])"

fun py_type_name :: "json \<Rightarrow> string" where
  "py_type_name JNull = ''NoneType''"
| "py_type_name (JBool b) = ''bool''"
| "py_type_name (JNum n) = ''int''"
| "py_type_name (JStr s) = ''str''"
| "py_type_name (JArr xs) = ''list''"
| "py_type_name (JObj kvs) = ''dict''"

definition no_attribute :: "json \<Rightarrow> string \<Rightarrow> py_error" where
  "no_attribute v a =
     AttributeError ([CHR 0x27] @ py_type_name v @ [CHR 0x27] @ '' object has no attribute ''
                     @ [CHR 0x27] @ a @ [CHR 0x27])"

text \<open>
  \<open>v.get(k, d)\<close>: only a dictionary has the method; on any other value the attribute
  lookup raises. \<open>v.get(k)\<close> is \<open>v.get(k, None)\<close>.
\<close>

fun py_get_d :: "json \<Rightarrow> string \<Rightarrow> json \<Rightarrow> py_error + json" where
  "py_get_d (JObj kvs) k d = Inr (case map_of kvs k of None \<Rightarrow> d | Some v \<Rightarrow> v)"
| "py_get_d v k d = Inl (no_attribute v ''get'')"

definition py_get :: "json \<Rightarrow> string \<Rightarrow> py_error + json" where
  "py_get v k = py_get_d v k JNull"

text \<open>Sequencing of computations that may raise.\<close>

fun bindE :: "'e + 'a \<Rightarrow> ('a \<Rightarrow> 'e + 'b) \<Rightarrow> 'e + 'b" where
  "bindE (Inl e) f = Inl e"
| "bindE (Inr x) f = f x"

text \<open>\<open>a or b\<close>: \<open>b\<close> is evaluated only when \<open>a\<close> is falsy.\<close>

definition py_or :: "py_error + json \<Rightarrow> py_error + json \<Rightarrow> py_error + json" where
  "py_or a b = bindE a (\<lambda>x. if truthy x then Inr x else b)"

text \<open>
  Lower-casing of a code point below 256, as \<open>str.lower\<close> does it: the ASCII capitals
  and the capitals of the Latin-1 supplement move up by 32.
\<close>

definition upper_chars :: string where
  "upper_chars = ''ABCDEFGHIJKLMNOPQRSTUVWXYZ'' @
     [CHR 0xC0, CHR 0xC1, CHR 0xC2, CHR 0xC3, CHR 0xC4, CHR 0xC5, CHR 0xC6, CHR 0xC7,
      CHR 0xC8, CHR 0xC9, CHR 0xCA, CHR 0xCB, CHR 0xCC, CHR 0xCD, CHR 0xCE, CHR 0xCF,
      CHR 0xD0, CHR 0xD1, CHR 0xD2, CHR 0xD3, CHR 0xD4, CHR 0xD5, CHR 0xD6, CHR 0xD8,
      CHR 0xD9, CHR 0xDA, CHR 0xDB, CHR 0xDC, CHR 0xDD, CHR 0xDE]"

definition lower_chars :: string where
  "lower_chars = ''abcdefghijklmnopqrstuvwxyz'' @
     [CHR 0xE0, CHR 0xE1, CHR 0xE2, CHR 0xE3, CHR 0xE4, CHR 0xE5, CHR 0xE6, CHR 0xE7,
      CHR 0xE8, CHR 0xE9, CHR 0xEA, CHR 0xEB, CHR 0xEC, CHR 0xED, CHR 0xEE, CHR 0xEF,
      CHR 0xF0, CHR 0xF1, CHR 0xF2, CHR 0xF3, CHR 0xF4, CHR 0xF5, CHR 0xF6, CHR 0xF8,
      CHR 0xF9, CHR 0xFA, CHR 0xFB, CHR 0xFC, CHR 0xFD, CHR 0xFE]"

definition py_lower_char :: "char \<Rightarrow> char" where
  "py_lower_char c = (case map_of (zip upper_chars lower_chars) c of None \<Rightarrow> c | Some d \<Rightarrow> d)"

definition py_lower :: "string \<Rightarrow> string" where
  "py_lower s = map py_lower_char s"

text \<open>\<open>x in s\<close> on strings is the substring test.\<close>

definition py_in :: "string \<Rightarrow> string \<Rightarrow> bool" where
  "py_in x s = sublist x s"

text \<open>Decimal text of an integer, for \<open>str\<close> and f-strings.\<close>

fun show_nat :: "nat \<Rightarrow> string" where
  "show_nat n =
     (if n < 10 then [''0123456789'' ! n]
      else show_nat (n div 10) @ [''0123456789'' ! (n mod 10)])"

declare show_nat.simps [simp del]

definition show_int :: "int \<Rightarrow> string" where
  "show_int i = (if i < 0 then CHR ''-'' # show_nat (nat (- i)) else show_nat (nat i))"

text \<open>
  \<open>str(v)\<close>. The text of a list or a dictionary is Python's \<open>repr\<close> of it, which the
  model takes as a parameter \<open>rp\<close>.
\<close>

fun py_str :: "(json \<Rightarrow> string) \<Rightarrow> json \<Rightarrow> string" where
  "py_str rp JNull = ''None''"
| "py_str rp (JBool b) = (if b then ''True'' else ''False'')"
| "py_str rp (JNum n) = show_int n"
| "py_str rp (JStr s) = s"
| "py_str rp v = rp v"

section \<open>The store: tables \<open>tickets\<close> and \<open>audit_trail\<close>\<close>

text \<open>
  A cell holds NULL or a text. All columns the modelled statements touch are declared
  \<open>TEXT\<close> (\<open>sla_seconds\<close> apart, which only ever receives an integer), so a bound
  integer is kept as its decimal text. \<open>SqlJson j\<close> stands for the text
  \<open>json.dumps(j)\<close>. Binding a list or a dictionary as a statement parameter is refused
  by the driver, and so is an integer that does not fit into 64 bits: the SQLite driver
  raises \<open>OverflowError\<close> for it.
\<close>

datatype sqlval = SqlNull | SqlText string | SqlJson json

datatype pyval = Py json | Dumps json

fun bind_param :: "pyval \<Rightarrow> py_error + sqlval" where
  "bind_param (Py JNull) = Inr SqlNull"
| "bind_param (Py (JBool b)) = Inr (SqlText (if b then ''1'' else ''0''))"
| "bind_param (Py (JNum n)) =
     (if - 9223372036854775808 \<le> n \<and> n \<le> 9223372036854775807
      then Inr (SqlText (show_int n))
      else Inl (OverflowError ''Python int too large to convert to SQLite INTEGER''))"
| "bind_param (Py (JStr s)) = Inr (SqlText s)"
| "bind_param (Py (JArr xs)) = Inl (DbError ''Error binding parameter: type 'list' is not supported'')"
| "bind_param (Py (JObj kvs)) = Inl (DbError ''Error binding parameter: type 'dict' is not supported'')"
| "bind_param (Dumps j) = Inr (SqlJson j)"

type_synonym row = "(string \<times> sqlval) list"

definition col :: "row \<Rightarrow> string \<Rightarrow> sqlval" where
  "col r c = (case map_of r c of None \<Rightarrow> SqlNull | Some v \<Rightarrow> v)"

fun bind_all :: "(string \<times> pyval) list \<Rightarrow> py_error + row" where
  "bind_all [] = Inr []"
| "bind_all ((c, v) # kvs) =
     bindE (bind_param v) (\<lambda>x. bindE (bind_all kvs) (\<lambda>r. Inr ((c, x) # r)))"

text \<open>
  SQL comparison \<open>a = b\<close> in a \<open>WHERE\<close> clause: never true on NULL. The columns
  compared below (\<open>run_id\<close>, \<open>action\<close>, \<open>id\<close>) only ever receive bound Python
  values, never a \<open>json.dumps\<close> text.
\<close>

definition sql_eq :: "sqlval \<Rightarrow> sqlval \<Rightarrow> bool" where
  "sql_eq a b = (a \<noteq> SqlNull \<and> a = b)"

text \<open>
  What a request does to the outside world is recorded, in order, next to the two tables.
\<close>

datatype effect =
    Sleep nat
  | RetryWait nat
  | PlaybookPost string json
  | AiCall string string
  | BlobUpload string
  | JiraPost string
  | SlackPost string
  | Broadcast string
  | DatabricksFetch json

record world =
  tickets :: "row list"
  audit_trail :: "row list"
  effects :: "effect list"

definition emit :: "effect \<Rightarrow> world \<Rightarrow> world" where
  "emit e w = w\<lparr>effects := effects w @ [e]\<rparr>"

text \<open>
  The uniqueness rules of \<open>init_db\<close>: \<open>id TEXT PRIMARY KEY\<close> and the unique index
  \<open>idx_tickets_run_id ON tickets(run_id) WHERE run_id IS NOT NULL\<close>. The engine reports
  a violation by its usual message; the handlers look for the substrings
  \<open>UNIQUE constraint failed\<close> (SQLite) and \<open>duplicate key\<close> (SQL Server) in it.
\<close>

datatype dialect = Sqlite | AzureSql

fun unique_violation :: "dialect \<Rightarrow> string \<Rightarrow> py_error" where
  "unique_violation Sqlite c = DbError (''UNIQUE constraint failed: tickets.'' @ c)"
| "unique_violation AzureSql c =
     DbError (if c = ''id''
              then ''Violation of PRIMARY KEY constraint. Cannot insert duplicate key in object 'dbo.tickets'.''
              else ''Cannot insert duplicate key row in object 'dbo.tickets' with unique index 'idx_tickets_run_id'.'')"

text \<open>\<open>INSERT INTO tickets (...) VALUES (...)\<close> with the dictionary \<open>ticket_data\<close>.\<close>

definition insert_ticket :: "dialect \<Rightarrow> world \<Rightarrow> (string \<times> pyval) list \<Rightarrow> py_error + world" where
  "insert_ticket d w ticket_data =
     bindE (bind_all ticket_data) (\<lambda>r.
       if \<exists>t \<in> set (tickets w). sql_eq (col t ''id'') (col r ''id'')
       then Inl (unique_violation d ''id'')
       else if \<exists>t \<in> set (tickets w). sql_eq (col t ''run_id'') (col r ''run_id'')
       then Inl (unique_violation d ''run_id'')
       else Inr (w\<lparr>tickets := tickets w @ [r]\<rparr>))"

text \<open>
  \<open>db_query("SELECT ... FROM tickets WHERE run_id = :run_id", {"run_id": v}, one=True)\<close>:
  the first matching row, or nothing.
\<close>

definition select_ticket_by_run_id :: "world \<Rightarrow> json \<Rightarrow> py_error + row option" where
  "select_ticket_by_run_id w v =
     bindE (bind_param (Py v)) (\<lambda>x. Inr (find (\<lambda>t. sql_eq (col t ''run_id'') x) (tickets w)))"

fun set_col :: "string \<Rightarrow> sqlval \<Rightarrow> row \<Rightarrow> row" where
  "set_col c v [] = [(c, v)]"
| "set_col c v ((k, x) # r) = (if k = c then (k, v) # r else (k, x) # set_col c v r)"

text \<open>\<open>UPDATE tickets SET c = :v WHERE id = :tid\<close>.\<close>

definition update_ticket :: "dialect \<Rightarrow> world \<Rightarrow> string \<Rightarrow> json \<Rightarrow> string \<Rightarrow> py_error + world" where
  "update_ticket d w c v tid =
     bindE (bind_param (Py v)) (\<lambda>x.
       if c = ''run_id''
          \<and> (\<exists>t \<in> set (tickets w). sql_eq (col t ''id'') (SqlText tid))
          \<and> (\<exists>t \<in> set (tickets w). \<not> sql_eq (col t ''id'') (SqlText tid)
                                     \<and> sql_eq (col t ''run_id'') x)
       then Inl (unique_violation d ''run_id'')
       else Inr (w\<lparr>tickets := map (\<lambda>t. if sql_eq (col t ''id'') (SqlText tid)
                                         then set_col c x t else t) (tickets w)\<rparr>))"

text \<open>
  \<open>log_audit\<close> of main.py. The keyword arguments not given are \<open>None\<close>. The insert is
  wrapped in \<open>try/except Exception\<close>: when a parameter cannot be bound, or a \<open>NOT NULL\<close>
  column would receive NULL, the entry is dropped and the caller goes on. The columns
  \<open>id\<close> (autoincrement) and \<open>timestamp\<close> (the clock) are left out of the row; the list
  keeps the order of insertion.
\<close>

definition audit_columns :: "string list" where
  "audit_columns = [''ticket_id'', ''pipeline'', ''run_id'', ''action'', ''user_name'',
     ''user_empid'', ''time_taken_seconds'', ''mttr_minutes'', ''sla_status'', ''rca_summary'',
     ''finops_team'', ''finops_owner'', ''details'', ''itsm_ticket_id'']"

definition kwarg :: "(string \<times> pyval) list \<Rightarrow> string \<Rightarrow> pyval" where
  "kwarg kw k = (case map_of kw k of None \<Rightarrow> Py JNull | Some v \<Rightarrow> v)"

definition log_audit :: "world \<Rightarrow> (string \<times> pyval) list \<Rightarrow> world" where
  "log_audit w kw =
     (case bind_all (map (\<lambda>c. (c, kwarg kw c)) audit_columns) of
        Inl e \<Rightarrow> w
      | Inr r \<Rightarrow>
          if col r ''ticket_id'' = SqlNull \<or> col r ''action'' = SqlNull then w
          else w\<lparr>audit_trail := audit_trail w @ [r]\<rparr>)"

text \<open>
  \<open>SELECT COUNT(*) as count FROM audit_trail WHERE run_id = :run_id AND action =
  'Auto-Remediation Attempted'\<close>.
\<close>

definition attempted_rows :: "world \<Rightarrow> sqlval \<Rightarrow> row list" where
  "attempted_rows w x =
     filter (\<lambda>a. sql_eq (col a ''run_id'') x \<and>
                 sql_eq (col a ''action'') (SqlText ''Auto-Remediation Attempted''))
       (audit_trail w)"

definition count_attempted :: "world \<Rightarrow> json \<Rightarrow> py_error + nat" where
  "count_attempted w v = bindE (bind_param (Py v)) (\<lambda>x. Inr (length (attempted_rows w x)))"

section \<open>What the environment answers\<close>

text \<open>
  A POST either fails on the way (\<open>NetError\<close>, a \<open>RequestException\<close> with its text) or
  is answered: \<open>Reply code reason body txt\<close> has the status code, the reason phrase of
  the status line, what \<open>response.json()\<close> gives or raises, and \<open>response.text\<close>.
\<close>

datatype http_reply =
    NetError string
  | Reply nat string "py_error + json" string

record env =
  db_type :: dialect
  getenv :: "string \<Rightarrow> string option"
  py_repr :: "json \<Rightarrow> string"
  utcnow :: string
  playbook_endpoint :: "string \<Rightarrow> json \<Rightarrow> nat \<Rightarrow> http_reply"

section \<open>auto\_remediation.py\<close>

record retry_config =
  max_retries :: nat
  backoff_seconds :: "nat list"
  playbook_type :: string
  description :: string

definition RETRY_ELIGIBLE_ERRORS :: "(string \<times> retry_config) list" where
  "RETRY_ELIGIBLE_ERRORS = [
     (''GatewayTimeout'',
        \<lparr>max_retries = 3, backoff_seconds = [10, 30, 60], playbook_type = ''retry_pipeline'',
         description = ''Gateway timeout - retry with exponential backoff''\<rparr>),
     (''HttpConnectionFailed'',
        \<lparr>max_retries = 3, backoff_seconds = [5, 15, 30], playbook_type = ''retry_pipeline'',
         description = ''HTTP connection failed - retry with connection reset''\<rparr>),
     (''ThrottlingError'',
        \<lparr>max_retries = 5, backoff_seconds = [30, 60, 120, 300, 600], playbook_type = ''retry_pipeline'',
         description = ''Rate limited - retry with delay based on Retry-After header''\<rparr>),
     (''InternalServerError'',
        \<lparr>max_retries = 2, backoff_seconds = [30, 60], playbook_type = ''retry_pipeline'',
         description = ''Internal server error - retry after delay''\<rparr>),
     (''UserErrorSourceBlobNotExists'',
        \<lparr>max_retries = 3, backoff_seconds = [60, 120, 300], playbook_type = ''rerun_upstream'',
         description = ''Source blob missing - check upstream and retry''\<rparr>),
     (''DatabricksClusterStartFailure'',
        \<lparr>max_retries = 2, backoff_seconds = [60, 120], playbook_type = ''restart_cluster'',
         description = ''Cluster failed to start - restart with fallback node type''\<rparr>),
     (''DatabricksTimeoutError'',
        \<lparr>max_retries = 2, backoff_seconds = [30, 60], playbook_type = ''retry_job'',
         description = ''Job timeout - retry with increased timeout''\<rparr>),
     (''DatabricksDriverNotResponding'',
        \<lparr>max_retries = 1, backoff_seconds = [60], playbook_type = ''restart_cluster'',
         description = ''Driver not responding - restart cluster''\<rparr>),
     (''DatabricksLibraryInstallationError'',
        \<lparr>max_retries = 2, backoff_seconds = [30, 60], playbook_type = ''reinstall_libraries'',
         description = ''Library install failed - retry with version fallback''\<rparr>),
     (''DatabricksResourceExhausted'',
        \<lparr>max_retries = 2, backoff_seconds = [60, 120], playbook_type = ''scale_cluster'',
         description = ''Resources exhausted - scale up cluster or retry with smaller batch''\<rparr>),
     (''ClusterUnexpectedTermination'',
        \<lparr>max_retries = 2, backoff_seconds = [60, 120], playbook_type = ''restart_cluster'',
         description = ''Cluster terminated unexpectedly - auto-restart''\<rparr>)]"

definition PLAYBOOK_ENV_VARS :: "(string \<times> string) list" where
  "PLAYBOOK_ENV_VARS = [
     (''retry_pipeline'', ''PLAYBOOK_RETRY_PIPELINE''),
     (''rerun_upstream'', ''PLAYBOOK_RERUN_UPSTREAM''),
     (''restart_cluster'', ''PLAYBOOK_RESTART_CLUSTER''),
     (''retry_job'', ''PLAYBOOK_RETRY_JOB''),
     (''reinstall_libraries'', ''PLAYBOOK_REINSTALL_LIBRARIES''),
     (''scale_cluster'', ''PLAYBOOK_SCALE_CLUSTER''),
     (''check_permissions'', ''PLAYBOOK_CHECK_PERMISSIONS'')]"

definition is_auto_remediable :: "string \<Rightarrow> bool" where
  "is_auto_remediable error_type = (map_of RETRY_ELIGIBLE_ERRORS error_type \<noteq> None)"

definition get_playbook_url :: "env \<Rightarrow> string \<Rightarrow> string option" where
  "get_playbook_url E error_type =
     (case map_of RETRY_ELIGIBLE_ERRORS error_type of
        None \<Rightarrow> None
      | Some config \<Rightarrow>
          (case map_of PLAYBOOK_ENV_VARS (playbook_type config) of
             None \<Rightarrow> None
           | Some playbook_env_var \<Rightarrow> getenv E playbook_env_var))"

text \<open>
  \<open>_http_post_with_retries\<close>: \<open>for attempt in range(retries)\<close>, one POST per round;
  \<open>raise_for_status\<close> turns a 4xx or 5xx reply into a \<open>RequestException\<close> with the
  text \<open><code> Client Error: <reason> for url: <url>\<close> (\<open>Server Error\<close> from 500 on); a
  failed round waits and goes on, the last one re-raises. The argument before the store
  counts the rounds left.
\<close>

fun raise_for_status :: "string \<Rightarrow> http_reply \<Rightarrow> py_error + http_reply" where
  "raise_for_status url (NetError m) = Inl (RequestException m)"
| "raise_for_status url (Reply code reason body txt) =
     (if 400 \<le> code \<and> code < 500
      then Inl (RequestException (show_nat code @ '' Client Error: '' @ reason
                  @ '' for url: '' @ url))
      else if 500 \<le> code \<and> code < 600
      then Inl (RequestException (show_nat code @ '' Server Error: '' @ reason
                  @ '' for url: '' @ url))
      else Inr (Reply code reason body txt))"

fun http_post_with_retries ::
  "env \<Rightarrow> string \<Rightarrow> json \<Rightarrow> nat \<Rightarrow> nat \<Rightarrow> nat \<Rightarrow> world \<Rightarrow> (py_error + http_reply option) \<times> world" where
  "http_post_with_retries E url payload retries attempt 0 w = (Inr None, w)"
| "http_post_with_retries E url payload retries attempt (Suc k) w =
     (let w1 = emit (PlaybookPost url payload) w
      in case raise_for_status url (playbook_endpoint E url payload attempt) of
           Inr response \<Rightarrow> (Inr (Some response), w1)
         | Inl e \<Rightarrow>
             if attempt + 1 < retries
             then http_post_with_retries E url payload retries (attempt + 1) k (emit (RetryWait attempt) w1)
             else (Inl e, w1))"

text \<open>
  \<open>backoff_seconds[min(current_attempt, len(backoff_seconds) - 1)]\<close>. On an empty
  schedule the index is \<open>-1\<close> and the read raises.
\<close>

definition backoff_delay :: "nat list \<Rightarrow> nat \<Rightarrow> py_error + nat" where
  "backoff_delay schedule current_attempt =
     (if schedule = [] then Inl (IndexError ''list index out of range'')
      else Inr (schedule ! min current_attempt (length schedule - 1)))"

text \<open>\<open>a != b\<close> on the values met here: \<open>True\<close> and \<open>False\<close> compare as 1 and 0.\<close>

fun as_int :: "json \<Rightarrow> json" where
  "as_int (JBool b) = JNum (if b then 1 else 0)"
| "as_int v = v"

definition py_ne :: "json \<Rightarrow> json \<Rightarrow> bool" where
  "py_ne a b = (as_int a \<noteq> as_int b)"

definition dict_get :: "(string \<times> json) list \<Rightarrow> string \<Rightarrow> json" where
  "dict_get d k = (case map_of d k of None \<Rightarrow> JNull | Some v \<Rightarrow> v)"

text \<open>The \<open>except Exception\<close> handler around the playbook call.\<close>

definition playbook_failed :: "world \<Rightarrow> string \<Rightarrow> json \<Rightarrow> py_error \<Rightarrow> (py_error + bool) \<times> world" where
  "playbook_failed w ticket_id run_id e =
     (Inr False,
      log_audit w [(''ticket_id'', Py (JStr ticket_id)),
                   (''action'', Py (JStr ''Auto-Remediation Failed'')),
                   (''run_id'', Py run_id),
                   (''details'', Py (JStr (''Exception: '' @ exn_str e)))])"

text \<open>The \<open>try\<close> block: trigger the playbook and record the outcome.\<close>

definition trigger_playbook ::
  "env \<Rightarrow> world \<Rightarrow> string \<Rightarrow> json \<Rightarrow> string \<Rightarrow> string \<Rightarrow> json \<Rightarrow> (py_error + bool) \<times> world" where
  "trigger_playbook E w ticket_id run_id pb_type playbook_url playbook_payload =
     (case http_post_with_retries E playbook_url playbook_payload 3 0 3 w of
        (Inl e, w1) \<Rightarrow> playbook_failed w1 ticket_id run_id e
      | (Inr None, w1) \<Rightarrow> playbook_failed w1 ticket_id run_id (no_attribute JNull ''status_code'')
      | (Inr (Some (NetError m)), w1) \<Rightarrow> playbook_failed w1 ticket_id run_id (RequestException m)
      | (Inr (Some (Reply code reason body txt)), w1) \<Rightarrow>
          if code = 200 then
            (case body of
               Inl e \<Rightarrow> playbook_failed w1 ticket_id run_id e
             | Inr result \<Rightarrow>
                 (case py_or (py_get result ''new_run_id'') (py_get result ''run_id'') of
                    Inl e \<Rightarrow> playbook_failed w1 ticket_id run_id e
                  | Inr new_run_id \<Rightarrow>
                      let w2 = log_audit w1
                            [(''ticket_id'', Py (JStr ticket_id)),
                             (''action'', Py (JStr ''Auto-Remediation Succeeded'')),
                             (''run_id'', Py (if truthy new_run_id then new_run_id else run_id)),
                             (''details'', Dumps (JObj [(''playbook_type'', JStr pb_type),
                                                        (''new_run_id'', new_run_id),
                                                        (''response'', result)]))]
                      in if truthy new_run_id \<and> truthy run_id \<and> py_ne new_run_id run_id
                         then (case update_ticket (db_type E) w2 ''run_id'' new_run_id ticket_id of
                                 Inl e \<Rightarrow> playbook_failed w2 ticket_id run_id e
                               | Inr w3 \<Rightarrow> (Inr True, w3))
                         else (Inr True, w2)))
          else
            (Inr False,
             log_audit w1 [(''ticket_id'', Py (JStr ticket_id)),
                           (''action'', Py (JStr ''Auto-Remediation Failed'')),
                           (''run_id'', Py run_id),
                           (''details'', Py (JStr (''Playbook returned '' @ show_nat code @ '': ''
                                                   @ take 500 txt)))]))"

text \<open>
  From \<open>max_retries = config.get("max_retries", 1)\<close> on: the retry ceiling, the backoff
  delay, the \<open>Attempted\<close> entry, the wait and the call.
\<close>

definition remediate ::
  "env \<Rightarrow> world \<Rightarrow> string \<Rightarrow> string \<Rightarrow> (string \<times> json) list \<Rightarrow> retry_config \<Rightarrow> string
   \<Rightarrow> (py_error + bool) \<times> world" where
  "remediate E w ticket_id error_type metadata config playbook_url =
     (let run_id = dict_get metadata ''run_id'' in
      case (if truthy run_id then count_attempted w run_id else Inr 0) of
        Inl e \<Rightarrow> (Inl e, w)
      | Inr retry_count \<Rightarrow>
          if truthy run_id \<and> retry_count \<ge> max_retries config then
            (Inr False,
             log_audit w [(''ticket_id'', Py (JStr ticket_id)),
                          (''action'', Py (JStr ''Auto-Remediation Max Retries Reached'')),
                          (''run_id'', Py run_id),
                          (''details'', Py (JStr (''Attempted '' @ show_nat retry_count
                              @ '' times. Error: '' @ error_type
                              @ ''. Manual intervention required.'')))])
          else
            (case backoff_delay (backoff_seconds config) retry_count of
               Inl e \<Rightarrow> (Inl e, w)
             | Inr delay \<Rightarrow>
                 let w1 = log_audit w
                       [(''ticket_id'', Py (JStr ticket_id)),
                        (''action'', Py (JStr ''Auto-Remediation Attempted'')),
                        (''run_id'', Py run_id),
                        (''details'', Dumps (JObj
                           [(''error_type'', JStr error_type),
                            (''attempt'', JNum (int retry_count + 1)),
                            (''max_retries'', JNum (int (max_retries config))),
                            (''backoff_seconds'', JNum (int delay)),
                            (''playbook_type'', JStr (playbook_type config)),
                            (''playbook_url'', JStr (if length playbook_url > 50
                                                     then take 50 playbook_url @ ''...''
                                                     else playbook_url))]))];
                     w2 = emit (Sleep delay) w1;
                     playbook_payload = JObj
                       [(''ticket_id'', JStr ticket_id),
                        (''error_type'', JStr error_type),
                        (''metadata'', JObj metadata),
                        (''retry_attempt'', JNum (int retry_count + 1)),
                        (''max_retries'', JNum (int (max_retries config))),
                        (''timestamp'', JStr (utcnow E))]
                 in trigger_playbook E w2 ticket_id run_id (playbook_type config)
                      playbook_url playbook_payload))"

definition attempt_auto_remediation ::
  "env \<Rightarrow> world \<Rightarrow> string \<Rightarrow> string \<Rightarrow> (string \<times> json) list \<Rightarrow> (py_error + bool) \<times> world" where
  "attempt_auto_remediation E w ticket_id error_type metadata =
     (case map_of RETRY_ELIGIBLE_ERRORS error_type of
        None \<Rightarrow> (Inr False, w)
      | Some config \<Rightarrow>
          (case map_of PLAYBOOK_ENV_VARS (playbook_type config) of
             None \<Rightarrow> (Inr False, w)
           | Some playbook_env_var \<Rightarrow>
               (case getenv E playbook_env_var of
                  Some (c # cs) \<Rightarrow>
                    remediate E w ticket_id error_type metadata config (c # cs)
                | _ \<Rightarrow>
                    (Inr False,
                     log_audit w [(''ticket_id'', Py (JStr ticket_id)),
                                  (''action'', Py (JStr ''Auto-Remediation Skipped'')),
                                  (''run_id'', Py (dict_get metadata ''run_id'')),
                                  (''details'', Py (JStr (''Playbook '' @ playbook_type config
                                      @ '' not configured in environment'')))]))))"

text \<open>
  Evaluations one after the other on the same store; each has its own environment, ticket
  id, error kind and metadata.
\<close>

fun evaluations ::
  "world \<Rightarrow> (env \<times> string \<times> string \<times> (string \<times> json) list) list \<Rightarrow> world" where
  "evaluations w [] = w"
| "evaluations w ((E, ticket_id, error_type, metadata) # es) =
     evaluations (snd (attempt_auto_remediation E w ticket_id error_type metadata)) es"

section \<open>main.py: classification\<close>

definition py_upper_char :: "char \<Rightarrow> char" where
  "py_upper_char c = (case map_of (zip lower_chars upper_chars) c of None \<Rightarrow> c | Some d \<Rightarrow> d)"

text \<open>
  \<open>str.upper\<close>, for the texts it is applied to here (the source tags \<open>adf\<close> and
  \<open>databricks\<close>): letter by letter.
\<close>

definition py_upper :: "string \<Rightarrow> string" where
  "py_upper s = map py_upper_char s"

text \<open>
  \<open>derive_priority\<close>: \<open>sev = (sev or "").lower()\<close>, then the table with default
  \<open>P3\<close>. A truthy value that is not a string has no \<open>lower\<close>.
\<close>

definition priority_table :: "(string \<times> string) list" where
  "priority_table = [(''critical'', ''P1''), (''high'', ''P2''), (''medium'', ''P3''), (''low'', ''P4'')]"

fun derive_priority :: "json \<Rightarrow> py_error + string" where
  "derive_priority (JStr s) =
     Inr (case map_of priority_table (py_lower s) of None \<Rightarrow> ''P3'' | Some p \<Rightarrow> p)"
| "derive_priority v =
     (if truthy v then Inl (no_attribute v ''lower'') else Inr ''P3'')"

text \<open>
  \<open>sla_for_priority\<close>: \<open>{"P1":900,"P2":1800,"P3":7200,"P4":86400}.get(p,1800)\<close>. A list
  or a dictionary cannot be a key.
\<close>

fun sla_for_priority :: "json \<Rightarrow> py_error + nat" where
  "sla_for_priority (JStr p) =
     Inr (case map_of [(''P1'', 900), (''P2'', 1800), (''P3'', 7200), (''P4'', 86400)] p of
            None \<Rightarrow> 1800 | Some n \<Rightarrow> n)"
| "sla_for_priority (JArr xs) = Inl (TypeError (''unhashable type: 'list'' @ [CHR 0x27]))"
| "sla_for_priority (JObj kvs) = Inl (TypeError (''unhashable type: 'dict'' @ [CHR 0x27]))"
| "sla_for_priority v = Inr 1800"

definition fallback_rca :: "json \<Rightarrow> string \<Rightarrow> json" where
  "fallback_rca desc source_type =
     (let service_name = (if source_type = ''databricks'' then ''Databricks job/cluster''
                          else ''ADF pipeline'')
      in JObj [(''root_cause'', JStr (service_name @ '' failed. Unable to determine root cause from logs.'')),
               (''error_type'', JStr ''UnknownError''),
               (''affected_entity'', JNull),
               (''severity'', JStr ''Medium''),
               (''priority'', JStr ''P3''),
               (''confidence'', JStr ''Low''),
               (''recommendations'',
                  JArr [JStr (''Inspect '' @ py_upper source_type @ '' logs for more context.''),
                        JStr ''Check resource health and configurations.'']),
               (''auto_heal_possible'', JBool False)])"

text \<open>
  What the ingestion endpoints read from their surroundings: the module settings, the
  clock and the random ticket suffix, and the answers of the collaborators.
  \<open>call_ai_for_rca\<close> gives the parsed reply of the model, \<open>None\<close> when the call or the
  parse failed. \<open>fetch_databricks_run_details\<close> and \<open>extract_error_message\<close> come from a
  module that is not part of the sources read here. \<open>concurrent_inserts\<close> are the ticket
  rows that other requests commit between this request's duplicate check and its insert;
  \<open>insert_fault\<close> is the message of a storage failure that hits the insert, if any. The
  other statements are taken to reach the store.
\<close>

record ingest_env =
  RCA_API_KEY :: string
  AUTO_REMEDIATION_ENABLED :: bool
  PLAYBOOK_REGISTRY :: "(string \<times> string option) list"
  AZURE_BLOB_ENABLED :: bool
  blob_service_client :: bool
  ITSM_TOOL :: string
  SLACK_ALERT_CHANNEL :: string
  DB_TYPE :: dialect
  str_of_container :: "json \<Rightarrow> string"
  json_dumps :: "json \<Rightarrow> string"
  call_ai_for_rca :: "json \<Rightarrow> string \<Rightarrow> json"
  utc_stamp :: string
  uuid6 :: string
  utc_iso :: string
  blob_upload :: "string \<Rightarrow> string + string"
  create_jira_ticket :: "string \<Rightarrow> py_error + json"
  broadcast_ok :: bool
  slack_post :: "string \<Rightarrow> py_error + json"
  fetch_databricks_run_details :: "json \<Rightarrow> py_error + json"
  extract_error_message :: "json \<Rightarrow> py_error + json"
  concurrent_inserts :: "row list"
  insert_fault :: "string option"

text \<open>\<open>d.setdefault(k, v)\<close> on a dictionary: a key that is present keeps its value.\<close>

definition setdefault :: "(string \<times> json) list \<Rightarrow> string \<Rightarrow> json \<Rightarrow> (string \<times> json) list" where
  "setdefault d k v = (case map_of d k of None \<Rightarrow> d @ [(k, v)] | Some x \<Rightarrow> d)"

text \<open>
  \<open>generate_rca_and_recs\<close> of main.py. In
  \<open>ai.setdefault("priority", derive_priority(ai.get("severity")))\<close> the method is looked
  up first, then the argument is computed, whether the key is present or not.
\<close>

definition generate_rca_and_recs :: "ingest_env \<Rightarrow> json \<Rightarrow> string \<Rightarrow> py_error + json" where
  "generate_rca_and_recs E desc source_type =
     (let ai = call_ai_for_rca E desc source_type
      in if truthy ai then
           (case ai of
              JObj d \<Rightarrow>
                bindE (derive_priority (dict_get d ''severity''))
                  (\<lambda>p. Inr (JObj (setdefault d ''priority'' (JStr p))))
            | v \<Rightarrow> Inl (no_attribute v ''setdefault''))
         else Inr (fallback_rca desc source_type))"

text \<open>
  The two lines that follow the classification in both endpoints:
  \<open>severity = rca.get("severity", "Medium")\<close> and
  \<open>priority = rca.get("priority", derive_priority(severity))\<close>.
\<close>

definition severity_and_priority :: "json \<Rightarrow> py_error + json \<times> json" where
  "severity_and_priority rca =
     bindE (py_get_d rca ''severity'' (JStr ''Medium'')) (\<lambda>severity.
     bindE (derive_priority severity) (\<lambda>p.
     bindE (py_get_d rca ''priority'' (JStr p)) (\<lambda>priority.
       Inr (severity, priority))))"

section \<open>ai\_provider.py\<close>

text \<open>
  \<open>_fallback_rca(error_message, reason)\<close>: the keyword scan over the lower-cased text.
\<close>

definition provider_fallback_kind :: "string \<Rightarrow> string \<times> bool \<times> string" where
  "provider_fallback_kind error_message =
     (let error_lower = py_lower error_message
      in if py_in ''timeout'' error_lower \<or> py_in ''timed out'' error_lower then
           (if py_in ''gateway'' error_lower then ''GatewayTimeout'' else ''DatabricksTimeoutError'',
            True, ''Medium'')
         else if py_in ''connection'' error_lower \<and> py_in ''failed'' error_lower then
           (''HttpConnectionFailed'', True, ''Medium'')
         else if py_in ''throttl'' error_lower then
           (''ThrottlingError'', True, ''Low'')
         else if py_in ''cluster'' error_lower then
           (''DatabricksClusterStartFailure'', True, ''High'')
         else if py_in ''library'' error_lower \<or> py_in ''package'' error_lower then
           (''DatabricksLibraryInstallationError'', True, ''Medium'')
         else (''Unknown'', False, ''Medium''))"

definition provider_fallback_rca :: "string \<Rightarrow> string \<Rightarrow> json" where
  "provider_fallback_rca error_message reason =
     (case provider_fallback_kind error_message of
        (error_type, auto_heal_possible, severity) \<Rightarrow>
          JObj [(''root_cause'', JStr (''Error analysis failed ('' @ reason
                    @ ''). Manual review required for: '' @ take 200 error_message)),
                (''error_type'', JStr error_type),
                (''severity'', JStr severity),
                (''priority'', JStr ''P2''),
                (''confidence'', JStr ''Low''),
                (''affected_entity'', JStr ''Unknown''),
                (''recommendations'',
                   JArr [JStr ''Review error logs for more details'',
                         JStr ''Check system health and connectivity'',
                         JStr ''Retry operation manually if appropriate'',
                         JStr (''AI Provider Error: '' @ reason)]),
                (''auto_heal_possible'', JBool auto_heal_possible),
                (''auto_heal_strategy'',
                   JStr (if auto_heal_possible then ''Basic retry with exponential backoff''
                         else ''Not applicable''))])"

text \<open>
  \<open>generate_rca_and_recs\<close> of ai\_provider.py. Each provider function either returns the
  parsed reply or calls \<open>_fallback_rca\<close> with a reason (no key configured, request error,
  unparsable reply); an unknown provider and any exception that escapes do the same. The
  outcome of the provider is given from outside.
\<close>

datatype provider_outcome = Parsed json | Failed string

definition provider_generate_rca_and_recs :: "provider_outcome \<Rightarrow> string \<Rightarrow> json" where
  "provider_generate_rca_and_recs outcome error_message =
     (case outcome of
        Parsed rca \<Rightarrow> rca
      | Failed reason \<Rightarrow> provider_fallback_rca error_message reason)"

text \<open>The three fields of a classification that the claims speak about.\<close>

definition fallback_fields :: "json \<Rightarrow> (py_error + json) \<times> (py_error + json) \<times> (py_error + json)" where
  "fallback_fields rca =
     (py_get rca ''error_type'', py_get rca ''auto_heal_possible'', py_get rca ''severity'')"

section \<open>Texts with characters from U+0100 on\<close>

text \<open>
  The strings above hold code points below 256. The clean-up of the forwarding envelope
  treats some characters beyond them in a way of its own, so the texts it works on are
  sequences of code points: \<open>L c\<close> is the code point of the character \<open>c\<close>, below 256, and
  \<open>W n\<close> is the code point \<open>256 + n\<close>.
\<close>

datatype uchar = L char | W nat

definition wide :: "string \<Rightarrow> uchar list" where
  "wide s = map L s"

fun narrow :: "uchar list \<Rightarrow> string" where
  "narrow [] = []"
| "narrow (L c # us) = c # narrow us"
| "narrow (W n # us) = narrow us"

text \<open>
  \<open>s.lower()\<close>. Below U+0100 the lower case of a character is one character, the one of
  the table above. From U+0100 on it is Unicode's: it can be several characters, and for
  U+03A3 it depends on the neighbours. There it is a parameter of the model: \<open>U pre n
  post\<close> is the lower case of the code point \<open>256 + n\<close> that stands between the texts
  \<open>pre\<close> and \<open>post\<close>.
\<close>

type_synonym lower_table = "uchar list \<Rightarrow> nat \<Rightarrow> uchar list \<Rightarrow> uchar list"

fun lower_from :: "lower_table \<Rightarrow> uchar list \<Rightarrow> uchar list \<Rightarrow> uchar list" where
  "lower_from U pre [] = []"
| "lower_from U pre (L c # cs) = L (py_lower_char c) # lower_from U (pre @ [L c]) cs"
| "lower_from U pre (W n # cs) = U pre n cs @ lower_from U (pre @ [W n]) cs"

definition u_lower :: "lower_table \<Rightarrow> uchar list \<Rightarrow> uchar list" where
  "u_lower U s = lower_from U [] s"

text \<open>
  A table under which the characters from U+0100 on are their own lower case. It is
  Unicode's for U+017F, the long s; and it serves for the texts of the JSON values of the
  model, which have no such character, so that the table is not consulted.
\<close>

definition keep_case :: lower_table where
  "keep_case pre n post = [W n]"


text \<open>
  \<open>s.strip()\<close> removes white space at both ends: the code points 9 to 13, 28 to 32, 133
  and 160, and from U+0100 on U+1680, U+2000 to U+200A, U+2028, U+2029, U+202F, U+205F and
  U+3000. \<open>s.strip("'")\<close> removes single quotes.
\<close>

definition py_space :: "char \<Rightarrow> bool" where
  "py_space c = (c \<in> set [CHR 0x09, CHR 0x0A, CHR 0x0B, CHR 0x0C, CHR 0x0D, CHR 0x1C, CHR 0x1D,
                           CHR 0x1E, CHR 0x1F, CHR 0x20, CHR 0x85, CHR 0xA0])"

fun u_space :: "uchar \<Rightarrow> bool" where
  "u_space (L c) = py_space c"
| "u_space (W n) =
     (256 + n \<in> set [0x1680, 0x2028, 0x2029, 0x202F, 0x205F, 0x3000]
      \<or> (0x2000 \<le> 256 + n \<and> 256 + n \<le> 0x200A))"

definition strip_where :: "('a \<Rightarrow> bool) \<Rightarrow> 'a list \<Rightarrow> 'a list" where
  "strip_where p s = rev (dropWhile p (rev (dropWhile p s)))"

definition py_strip :: "uchar list \<Rightarrow> uchar list" where
  "py_strip s = strip_where u_space s"

definition py_strip_quotes :: "uchar list \<Rightarrow> uchar list" where
  "py_strip_quotes s = strip_where (\<lambda>c. c = L (CHR 0x27)) s"

section \<open>The forwarding envelope\<close>

text \<open>
  What a character of the pattern matches under \<open>re.IGNORECASE\<close>, for the ASCII
  characters the pattern is made of: a letter matches itself in both cases; \<open>s\<close> also
  matches U+017F, \<open>i\<close> also U+0130 and U+0131, \<open>k\<close> also U+212A; any other character
  matches itself only.
\<close>

fun ci_match :: "char \<Rightarrow> uchar \<Rightarrow> bool" where
  "ci_match p (L c) = (py_lower_char c = py_lower_char p)"
| "ci_match p (W n) =
     ((py_lower_char p = CHR ''s'' \<and> 256 + n = 0x17F)
      \<or> (py_lower_char p = CHR ''i'' \<and> (256 + n = 0x130 \<or> 256 + n = 0x131))
      \<or> (py_lower_char p = CHR ''k'' \<and> 256 + n = 0x212A))"

text \<open>The literal text \<open>pat\<close> of a pattern matches at the start of \<open>s\<close>; somewhere in \<open>s\<close>.\<close>

fun ci_prefix :: "string \<Rightarrow> uchar list \<Rightarrow> bool" where
  "ci_prefix [] s = True"
| "ci_prefix (p # ps) [] = False"
| "ci_prefix (p # ps) (c # cs) = (ci_match p c \<and> ci_prefix ps cs)"


text \<open>
  \<open>re.search(r"(ErrorMessage|Message)=(.+)(?=Forwarded to RCA system)", s,
  re.IGNORECASE | re.DOTALL)\<close>, as the backtracking matcher runs it. The start positions
  are tried from the left; at a position the alternatives of group 1 are tried in their
  order; group 2 is greedy: it takes the longest non-empty text after which the lookahead
  finds the marker. With \<open>DOTALL\<close> the dot matches every character. The result is the
  text of group 2.
\<close>

definition forward_marker :: string where
  "forward_marker = ''Forwarded to RCA system''"

definition marker_at :: "uchar list \<Rightarrow> bool" where
  "marker_at s = ci_prefix forward_marker s"

fun greedy_group :: "uchar list \<Rightarrow> uchar list option" where
  "greedy_group [] = None"
| "greedy_group (c # cs) =
     (case greedy_group cs of
        Some g \<Rightarrow> Some (c # g)
      | None \<Rightarrow> if marker_at cs then Some [c] else None)"

definition key_rest :: "string \<Rightarrow> uchar list \<Rightarrow> uchar list option" where
  "key_rest key s =
     (if ci_prefix (key @ ''='') s then Some (drop (length key + 1) s) else None)"

definition match_here :: "uchar list \<Rightarrow> uchar list option" where
  "match_here s =
     (case Option.bind (key_rest ''ErrorMessage'' s) greedy_group of
        Some g \<Rightarrow> Some g
      | None \<Rightarrow> Option.bind (key_rest ''Message'' s) greedy_group)"

fun re_search_forwarded :: "uchar list \<Rightarrow> uchar list option" where
  "re_search_forwarded [] = None"
| "re_search_forwarded (c # cs) =
     (case match_here (c # cs) of
        Some g \<Rightarrow> Some g
      | None \<Rightarrow> re_search_forwarded cs)"

text \<open>
  The clean-up of a Logic App forwarding message, as written in \<open>azure_monitor\<close> and in
  \<open>AzureDataFactoryExtractor.extract\<close>, once the error text is known to be a string.
\<close>

definition strip_forwarding :: "lower_table \<Rightarrow> uchar list \<Rightarrow> uchar list" where
  "strip_forwarding U error_message =
     (if sublist (wide ''forwarded to rca system'') (u_lower U error_message) then
        (case re_search_forwarded error_message of
           Some g \<Rightarrow> py_strip_quotes (py_strip g)
         | None \<Rightarrow> error_message)
      else error_message)"

section \<open>error\_extractors.py\<close>

text \<open>\<open>a or b or ... or z\<close>: the first truthy operand, else the last one.\<close>

fun py_ors :: "(py_error + json) list \<Rightarrow> py_error + json" where
  "py_ors [] = Inr JNull"
| "py_ors [a] = a"
| "py_ors (a # b # bs) = py_or a (py_ors (b # bs))"

text \<open>The same on values that are already there: \<open>a or b or ... or z\<close>.\<close>

fun py_first :: "json list \<Rightarrow> json" where
  "py_first [] = JNull"
| "py_first [v] = v"
| "py_first (v # w # vs) = (if truthy v then v else py_first (w # vs))"

text \<open>\<open>v.get(k1, {}).get(k2)\<close>.\<close>

definition get2 :: "json \<Rightarrow> string \<Rightarrow> string \<Rightarrow> py_error + json" where
  "get2 v k1 k2 = bindE (py_get_d v k1 (JObj [])) (\<lambda>d. py_get d k2)"

text \<open>A dictionary display \<open>{k1: e1, ...}\<close>: the values are computed in order.\<close>

fun py_dict :: "(string \<times> (py_error + json)) list \<Rightarrow> py_error + (string \<times> json) list" where
  "py_dict [] = Inr []"
| "py_dict ((k, e) # es) = bindE e (\<lambda>v. bindE (py_dict es) (\<lambda>d. Inr ((k, v) # d)))"

text \<open>
  The clean-up of the forwarding envelope on an untyped value: \<open>error_message.lower()\<close>
  needs a string. The texts of the JSON values have no character from U+0100 on, so the
  table of lower cases is not consulted.
\<close>

fun clean_forwarded :: "json \<Rightarrow> py_error + json" where
  "clean_forwarded (JStr s) = Inr (JStr (narrow (strip_forwarding keep_case (wide s))))"
| "clean_forwarded v = Inl (no_attribute v ''lower'')"















text \<open>
  The shape of payload the ADF extractor is written for: wherever they occur, the members
  it walks into hold objects and the members it reads the error text from hold strings.
\<close>

fun is_obj :: "json \<Rightarrow> bool" where
  "is_obj (JObj kvs) = True"
| "is_obj v = False"

fun is_str :: "json \<Rightarrow> bool" where
  "is_str (JStr s) = True"
| "is_str v = False"

definition container_keys :: "string list" where
  "container_keys = [''data'', ''essentials'', ''alertContext'', ''properties'', ''Error'', ''error'']"

definition text_keys :: "string list" where
  "text_keys = [''message'', ''Message'', ''ErrorMessage'', ''errorMessage'', ''detailedMessage'',
                ''description'']"

fun well_shaped :: "json \<Rightarrow> bool" where
  "well_shaped (JObj kvs) =
     (\<forall>kv \<in> set kvs. (fst kv \<in> set container_keys \<longrightarrow> is_obj (snd kv))
                    \<and> (fst kv \<in> set text_keys \<longrightarrow> is_str (snd kv))
                    \<and> well_shaped (snd kv))"
| "well_shaped v = True"

text \<open>What a lookup delivers on such a payload.\<close>

definition returns_obj :: "py_error + json \<Rightarrow> bool" where
  "returns_obj r = (\<exists>kvs. r = Inr (JObj kvs) \<and> well_shaped (JObj kvs))"

definition returns_obj_or_none :: "py_error + json \<Rightarrow> bool" where
  "returns_obj_or_none r = (r = Inr JNull \<or> returns_obj r)"

definition returns_text_or_none :: "py_error + json \<Rightarrow> bool" where
  "returns_text_or_none r = (r = Inr JNull \<or> (\<exists>s. r = Inr (JStr s)))"

definition returns :: "'e + 'a \<Rightarrow> bool" where
  "returns r = (\<exists>v. r = Inr v)"







text \<open>
  What the ADF extractor reads on a payload of the shape \<open>well_shaped\<close>, where no step
  raises: the essentials, the alert context, the properties, the error object, and the error text before the
  clean-up, the first non-empty of seven members in the order of the source, else a fixed
  sentence.
\<close>

fun members :: "json \<Rightarrow> (string \<times> json) list" where
  "members (JObj d) = d"
| "members v = []"






section \<open>main.py: the ingestion endpoints\<close>

text \<open>
  What a handler gives back: a \<open>JSONResponse\<close>, or nothing, when the function runs to
  its end without a \<open>return\<close> (the framework then answers 200 with the body \<open>null\<close>).
  An exception that leaves the handler is the error outcome; an \<open>HTTPException\<close> carries
  its status code, any other exception is answered with status 500.
\<close>

datatype response = JSONResponse json | NoResponse

text \<open>A cell of a result row as a Python value.\<close>

fun from_sql :: "ingest_env \<Rightarrow> sqlval \<Rightarrow> json" where
  "from_sql E SqlNull = JNull"
| "from_sql E (SqlText s) = JStr s"
| "from_sql E (SqlJson j) = JStr (json_dumps E j)"

definition pstr :: "ingest_env \<Rightarrow> json \<Rightarrow> string" where
  "pstr E v = py_str (str_of_container E) v"

text \<open>
  The deduplication check, written the same way in both endpoints (\<open>who\<close> is
  \<open>Logic App\<close> or \<open>Databricks job\<close> in the audit text). It gives the response of a
  duplicate, or nothing when processing goes on.
\<close>

definition duplicate_check ::
  "ingest_env \<Rightarrow> world \<Rightarrow> string \<Rightarrow> json \<Rightarrow> json \<Rightarrow> (py_error + response option) \<times> world" where
  "duplicate_check E w who pipeline runid =
     (if truthy runid then
        (case select_ticket_by_run_id w runid of
           Inl e \<Rightarrow> (Inl e, w)
         | Inr None \<Rightarrow> (Inr None, w)
         | Inr (Some existing) \<Rightarrow>
             let existing_id = from_sql E (col existing ''id'')
             in (Inr (Some (JSONResponse (JObj
                   [(''status'', JStr ''duplicate_ignored''),
                    (''ticket_id'', existing_id),
                    (''message'', JStr (''Ticket already exists for run_id '' @ pstr E runid)),
                    (''existing_status'', from_sql E (col existing ''status''))]))),
                 log_audit w
                   [(''ticket_id'', Py existing_id),
                    (''action'', Py (JStr ''Duplicate Run Detected'')),
                    (''pipeline'', Py pipeline),
                    (''run_id'', Py runid),
                    (''details'', Py (JStr (who @ '' attempted to create duplicate ticket for run_id ''
                        @ pstr E runid @ ''. Original ticket: '' @ pstr E existing_id)))]))
      else (Inr None, w))"

text \<open>\<open>extract_finops_tags\<close>.\<close>

definition finops_team_of :: "string \<Rightarrow> string \<times> string" where
  "finops_team_of resource_lower =
     (if py_in ''finance'' resource_lower \<or> py_in ''fin'' resource_lower
      then (''Finance'', ''CC-FIN-001'')
      else if py_in ''data'' resource_lower \<or> py_in ''analytics'' resource_lower
              \<or> py_in ''etl'' resource_lower
      then (''DataEngineering'', ''CC-DATA-001'')
      else if py_in ''sales'' resource_lower then (''Sales'', ''CC-SALES-001'')
      else if py_in ''hr'' resource_lower then (''HumanResources'', ''CC-HR-001'')
      else if py_in ''marketing'' resource_lower \<or> py_in ''mkt'' resource_lower
      then (''Marketing'', ''CC-MKT-001'')
      else if py_in ''ml'' resource_lower \<or> py_in ''machine'' resource_lower
              \<or> py_in ''model'' resource_lower
      then (''MachineLearning'', ''CC-ML-001'')
      else (''Operations'', ''CC-OPS-001''))"

fun extract_finops_tags :: "json \<Rightarrow> string \<Rightarrow> py_error + (string \<times> json) list" where
  "extract_finops_tags (JStr resource_name) resource_type =
     (if resource_name = [] then
        Inr [(''team'', JStr ''Unknown''), (''owner'', JStr ''Unknown''),
             (''cost_center'', JStr ''Unknown'')]
      else (case finops_team_of (py_lower resource_name) of
              (team, cost_center) \<Rightarrow>
                Inr [(''team'', JStr team),
                     (''owner'', JStr (py_lower team @ ''@company.com'')),
                     (''cost_center'', JStr cost_center),
                     (''resource_type'', JStr resource_type)]))"
| "extract_finops_tags v resource_type =
     (if truthy v then Inl (no_attribute v ''lower'')
      else Inr [(''team'', JStr ''Unknown''), (''owner'', JStr ''Unknown''),
                (''cost_center'', JStr ''Unknown'')])"

text \<open>
  \<open>upload_payload_to_blob\<close>, called under \<open>if AZURE_BLOB_ENABLED\<close> inside a
  \<open>try/except\<close>. The upload itself is the collaborator's; both of its outcomes are
  written to the audit trail, under a ticket id that has no ticket row yet.
\<close>

definition upload_payload_to_blob :: "ingest_env \<Rightarrow> world \<Rightarrow> string \<Rightarrow> json \<times> world" where
  "upload_payload_to_blob E w ticket_id =
     (if \<not> (blob_service_client E \<and> AZURE_BLOB_ENABLED E) then (JNull, w)
      else (case blob_upload E ticket_id of
              Inr url \<Rightarrow>
                (JStr url,
                 log_audit (emit (BlobUpload ticket_id) w)
                   [(''ticket_id'', Py (JStr ticket_id)),
                    (''action'', Py (JStr ''Blob Payload Saved'')),
                    (''details'', Py (JStr (''Raw payload saved to: '' @ url)))])
            | Inl msg \<Rightarrow>
                (JNull,
                 log_audit (emit (BlobUpload ticket_id) w)
                   [(''ticket_id'', Py (JStr ticket_id)),
                    (''action'', Py (JStr ''Blob Upload Failed'')),
                    (''details'', Py (JStr msg))])))"

definition blob_step :: "ingest_env \<Rightarrow> world \<Rightarrow> string \<Rightarrow> json \<times> world" where
  "blob_step E w tid =
     (if AZURE_BLOB_ENABLED E then upload_payload_to_blob E w tid else (JNull, w))"

text \<open>
  The dictionary \<open>ticket_data\<close>. \<open>affected_entity\<close> is serialized when it is a
  dictionary; \<open>recommendations\<close> always is.
\<close>

definition ticket_data ::
  "ingest_env \<Rightarrow> string \<Rightarrow> json \<Rightarrow> json \<Rightarrow> (string \<times> json) list \<Rightarrow> json \<Rightarrow> json \<Rightarrow> nat
   \<Rightarrow> (string \<times> json) list \<Rightarrow> json \<Rightarrow> json \<Rightarrow> json \<Rightarrow> (string \<times> pyval) list" where
  "ticket_data E tid pipeline runid rca severity priority sla_seconds finops_tags blob_url
     logic_app_run_id processing_mode =
     [(''id'', Py (JStr tid)),
      (''timestamp'', Py (JStr (utc_iso E))),
      (''pipeline'', Py pipeline),
      (''run_id'', Py runid),
      (''rca_result'', Py (dict_get rca ''root_cause'')),
      (''recommendations'',
         Dumps (if truthy (dict_get rca ''recommendations'') then dict_get rca ''recommendations''
                else JArr [])),
      (''confidence'', Py (dict_get rca ''confidence'')),
      (''severity'', Py severity),
      (''priority'', Py priority),
      (''error_type'', Py (dict_get rca ''error_type'')),
      (''affected_entity'',
         (case dict_get rca ''affected_entity'' of JObj d \<Rightarrow> Dumps (JObj d) | v \<Rightarrow> Py v)),
      (''status'', Py (JStr ''open'')),
      (''sla_seconds'', Py (JNum (int sla_seconds))),
      (''sla_status'', Py (JStr ''Pending'')),
      (''finops_team'', Py (dict_get finops_tags ''team'')),
      (''finops_owner'', Py (dict_get finops_tags ''owner'')),
      (''finops_cost_center'', Py (dict_get finops_tags ''cost_center'')),
      (''blob_log_url'', Py blob_url),
      (''itsm_ticket_id'', Py JNull),
      (''logic_app_run_id'', Py logic_app_run_id),
      (''processing_mode'', Py processing_mode)]"

text \<open>
  The insert and its handler. Rows that other requests commit after this request's
  duplicate check are in the table when the insert runs. A failure whose message has
  \<open>UNIQUE constraint failed\<close>, or \<open>duplicate key\<close> in any letter case, is answered as a
  lost race, with the id of the ticket that holds the run id, or \<open>unknown\<close> when the
  query finds none; any other failure is answered with status 500.
\<close>

definition is_unique_failure :: "string \<Rightarrow> bool" where
  "is_unique_failure msg =
     (py_in ''UNIQUE constraint failed'' msg \<or> py_in ''duplicate key'' (py_lower msg))"

definition insert_or_race ::
  "ingest_env \<Rightarrow> world \<Rightarrow> json \<Rightarrow> (string \<times> pyval) list \<Rightarrow> (py_error + response option) \<times> world" where
  "insert_or_race E w runid data =
     (let w1 = w\<lparr>tickets := tickets w @ concurrent_inserts E\<rparr>
      in case (case insert_fault E of
                 Some msg \<Rightarrow> Inl (DbError msg)
               | None \<Rightarrow> insert_ticket (DB_TYPE E) w1 data) of
           Inr w2 \<Rightarrow> (Inr None, w2)
         | Inl e \<Rightarrow>
             if is_unique_failure (exn_str e) then
               (case select_ticket_by_run_id w1 runid of
                  Inl e' \<Rightarrow> (Inl e', w1)
                | Inr existing \<Rightarrow>
                    (Inr (Some (JSONResponse (JObj
                       [(''status'', JStr ''duplicate_race_condition''),
                        (''ticket_id'',
                           (case existing of
                              Some t \<Rightarrow> from_sql E (col t ''id'')
                            | None \<Rightarrow> JStr ''unknown'')),
                        (''message'', JStr (''Race condition: Ticket for run_id '' @ pstr E runid
                            @ '' was created by another request''))]))),
                     w1))
             else (Inl (HTTPException 500 (''Database error: '' @ exn_str e)), w1))"

text \<open>
  \<open>rca.get("root_cause")[:200] if rca.get("root_cause") else ""\<close>: a truthy value that
  is neither a string nor a list cannot be sliced.
\<close>

fun rca_summary :: "json \<Rightarrow> py_error + json" where
  "rca_summary (JStr s) = Inr (JStr (take 200 s))"
| "rca_summary (JArr xs) = Inr (if xs = [] then JStr [] else JArr (take 200 xs))"
| "rca_summary (JObj kvs) =
     (if kvs = [] then Inr (JStr []) else Inl (TypeError ''unhashable type: 'slice' ''))"
| "rca_summary v =
     (if truthy v
      then Inl (TypeError ([CHR 0x27] @ py_type_name v @ [CHR 0x27] @ '' object is not subscriptable''))
      else Inr (JStr []))"

text \<open>
  The ITSM step after the insert, the same in both endpoints. \<open>create_jira_ticket\<close> is
  the collaborator; its result, or the exception it ends in, is given from outside. The
  step gives back the value the variable \<open>itsm_ticket_id\<close> then has.
\<close>

definition itsm_step :: "ingest_env \<Rightarrow> world \<Rightarrow> string \<Rightarrow> json \<times> world" where
  "itsm_step E w tid =
     (if ITSM_TOOL E = ''jira'' then
        (let w1 = emit (JiraPost tid) w
         in case create_jira_ticket E tid of
              Inl e \<Rightarrow>
                (JNull,
                 log_audit w1 [(''ticket_id'', Py (JStr tid)),
                               (''action'', Py (JStr ''Jira Ticket Failed'')),
                               (''details'', Py (JStr (exn_str e)))])
            | Inr itsm_ticket_id \<Rightarrow>
                if truthy itsm_ticket_id then
                  (case update_ticket (DB_TYPE E) w1 ''itsm_ticket_id'' itsm_ticket_id tid of
                     Inl e \<Rightarrow>
                       (itsm_ticket_id,
                        log_audit w1 [(''ticket_id'', Py (JStr tid)),
                                      (''action'', Py (JStr ''Jira Ticket Failed'')),
                                      (''details'', Py (JStr (exn_str e)))])
                   | Inr w2 \<Rightarrow>
                       (itsm_ticket_id,
                        log_audit w2 [(''ticket_id'', Py (JStr tid)),
                                      (''action'', Py (JStr ''Jira Ticket Created'')),
                                      (''details'', Py (JStr (''Jira ID: '' @ pstr E itsm_ticket_id))),
                                      (''itsm_ticket_id'', Py itsm_ticket_id)]))
                else
                  (itsm_ticket_id,
                   log_audit w1 [(''ticket_id'', Py (JStr tid)),
                                 (''action'', Py (JStr ''Jira Ticket Failed'')),
                                 (''details'', Py (JStr ''Jira settings incomplete or API returned null.''))]))
      else (JNull, w))"

text \<open>
  \<open>post_slack_notification\<close>. Building and posting the message is the collaborator's:
  \<open>slack_post\<close> gives the exception raised while the message is built, \<open>None\<close> when
  nothing was posted or the post failed, or the reply. With a reply that has \<open>ts\<close> and
  \<open>channel\<close> the ticket row is updated; a failure there is swallowed and \<open>None\<close> is
  returned.
\<close>

definition post_slack_notification :: "ingest_env \<Rightarrow> world \<Rightarrow> string \<Rightarrow> (py_error + json) \<times> world" where
  "post_slack_notification E w ticket_id =
     (case slack_post E ticket_id of
        Inl e \<Rightarrow> (Inl e, w)
      | Inr j \<Rightarrow>
          if j = JNull then (Inr JNull, w)
          else
            (let w1 = emit (SlackPost ticket_id) w
             in case bindE (py_get j ''ts'') (\<lambda>ts. bindE (py_get j ''channel'') (\<lambda>ch. Inr (ts, ch))) of
                  Inl e \<Rightarrow> (Inr JNull, w1)
                | Inr (ts, ch) \<Rightarrow>
                    if truthy ts \<and> truthy ch then
                      (case bindE (update_ticket (DB_TYPE E) w1 ''slack_ts'' ts ticket_id)
                              (\<lambda>w2. update_ticket (DB_TYPE E) w2 ''slack_channel'' ch ticket_id) of
                         Inl e \<Rightarrow> (Inr JNull, w1)
                       | Inr w3 \<Rightarrow> (Inr j, w3))
                    else (Inr j, w1)))"

definition slack_step ::
  "ingest_env \<Rightarrow> world \<Rightarrow> string \<Rightarrow> json \<Rightarrow> json \<Rightarrow> json \<Rightarrow> world" where
  "slack_step E w tid pipeline runid itsm_ticket_id =
     (case post_slack_notification E w tid of
        (Inl e, w1) \<Rightarrow>
          log_audit w1 [(''ticket_id'', Py (JStr tid)),
                        (''action'', Py (JStr ''Slack Notification Failed'')),
                        (''pipeline'', Py pipeline),
                        (''run_id'', Py runid),
                        (''details'', Py (JStr (''Error: '' @ exn_str e)))]
      | (Inr slack_result, w1) \<Rightarrow>
          if truthy slack_result then
            log_audit w1 [(''ticket_id'', Py (JStr tid)),
                          (''action'', Py (JStr ''Slack Notification Sent'')),
                          (''pipeline'', Py pipeline),
                          (''run_id'', Py runid),
                          (''details'', Py (JStr (''Notification sent to channel: ''
                              @ SLACK_ALERT_CHANNEL E))),
                          (''itsm_ticket_id'', Py itsm_ticket_id)]
          else w1)"

text \<open>
  What follows a successful insert in \<open>azure_monitor\<close>: two audit entries, the ITSM
  step, the broadcast, the Slack step. The auto-remediation block and the final
  \<open>return JSONResponse({"status": "Ticket Created", ...})\<close> are commented out in the
  source, so the function ends without returning a value.
\<close>

definition azure_after_insert ::
  "ingest_env \<Rightarrow> world \<Rightarrow> string \<Rightarrow> json \<Rightarrow> json \<Rightarrow> (string \<times> json) list \<Rightarrow> json \<Rightarrow> json
   \<Rightarrow> (string \<times> json) list \<Rightarrow> json \<Rightarrow> json \<Rightarrow> (py_error + response) \<times> world" where
  "azure_after_insert E w tid pipeline runid rca severity priority finops_tags
     logic_app_run_id processing_mode =
     (case rca_summary (dict_get rca ''root_cause'') of
        Inl e \<Rightarrow> (Inl e, w)
      | Inr summary \<Rightarrow>
          let w1 = log_audit w
                [(''ticket_id'', Py (JStr tid)),
                 (''action'', Py (JStr ''Ticket Created'')),
                 (''pipeline'', Py pipeline),
                 (''run_id'', Py runid),
                 (''rca_summary'', Py summary),
                 (''sla_status'', Py (JStr ''Pending'')),
                 (''finops_team'', Py (dict_get finops_tags ''team'')),
                 (''finops_owner'', Py (dict_get finops_tags ''owner'')),
                 (''details'', Py (JStr (''Severity: '' @ pstr E severity @ '', Priority: ''
                     @ pstr E priority @ '', Processing Mode: '' @ pstr E processing_mode)))];
              w2 = log_audit w1
                [(''ticket_id'', Py (JStr tid)),
                 (''action'', Py (JStr ''Logic App Forwarded'')),
                 (''pipeline'', Py pipeline),
                 (''run_id'', Py runid),
                 (''details'', Py (JStr (''Alert forwarded from Logic App (Run: ''
                     @ pstr E logic_app_run_id @ '') to FastAPI RCA system'')))];
              (itsm_ticket_id, w3) = itsm_step E w2 tid;
              w4 = emit (Broadcast tid) w3;
              w5 = slack_step E w4 tid pipeline runid itsm_ticket_id
          in (Inr NoResponse, w5))"

text \<open>
  The fields \<open>azure_monitor\<close> takes from the body: \<open>(essentials, desc, pipeline, runid,
  logic_app_run_id, processing_mode)\<close>.
\<close>

definition get3 :: "json \<Rightarrow> string \<Rightarrow> string \<Rightarrow> string \<Rightarrow> py_error + json" where
  "get3 v k1 k2 k3 =
     bindE (py_get_d v k1 (JObj [])) (\<lambda>a.
     bindE (py_get_d a k2 (JObj [])) (\<lambda>b. py_get_d b k3 (JObj [])))"

definition azure_fields ::
  "ingest_env \<Rightarrow> json \<Rightarrow> py_error + json \<times> json \<times> json \<times> json \<times> json \<times> json" where
  "azure_fields E body =
     bindE (py_ors [py_get body ''essentials'', get2 body ''data'' ''essentials'', Inr body])
       (\<lambda>essentials.
     bindE (get3 body ''data'' ''context'' ''properties'') (\<lambda>properties.
     bindE (py_ors [py_get properties ''error'', py_get properties ''Error'', Inr (JObj [])])
       (\<lambda>err.
     bindE (case err of
              JObj d \<Rightarrow> py_ors [py_get err ''message'', py_get err ''Message'',
                                py_get err ''value'', py_get err ''Value'']
            | v \<Rightarrow> Inr JNull) (\<lambda>specific_error.
     bindE (py_ors [Inr specific_error, py_get properties ''detailedMessage'',
                    py_get properties ''ErrorMessage'', py_get properties ''message'',
                    py_get essentials ''description'', Inr (JStr (pstr E body))]) (\<lambda>raw_desc.
     bindE (if truthy raw_desc then clean_forwarded raw_desc else Inr raw_desc) (\<lambda>desc.
     bindE (py_ors [py_get properties ''PipelineName'', py_get essentials ''pipelineName'',
                    py_get essentials ''alertRule'', Inr (JStr ''ADF Pipeline Failure'')])
       (\<lambda>pipeline.
     bindE (py_ors [py_get properties ''PipelineRunId'', py_get essentials ''runId'',
                    py_get essentials ''alertId'']) (\<lambda>runid.
     bindE (py_get_d properties ''LogicAppRunId'' (JStr ''N/A'')) (\<lambda>logic_app_run_id.
     bindE (py_get_d properties ''ProcessingMode'' (JStr ''Single'')) (\<lambda>processing_mode.
       Inr (essentials, desc, pipeline, runid, logic_app_run_id, processing_mode)))))))))))"

text \<open>
  The classification of a ticket: \<open>(rca, severity, priority, sla_seconds)\<close>, each step
  raising as the source does.
\<close>

definition classify_ticket ::
  "ingest_env \<Rightarrow> json \<Rightarrow> string \<Rightarrow> py_error + (string \<times> json) list \<times> json \<times> json \<times> nat" where
  "classify_ticket E desc source_type =
     bindE (generate_rca_and_recs E desc source_type) (\<lambda>rca_value.
     bindE (severity_and_priority rca_value) (\<lambda>(severity, priority).
     bindE (sla_for_priority priority) (\<lambda>sla_seconds.
       case rca_value of
         JObj rca \<Rightarrow> Inr (rca, severity, priority, sla_seconds)
       | v \<Rightarrow> Inl (no_attribute v ''get''))))"

definition azure_ingest ::
  "ingest_env \<Rightarrow> world \<Rightarrow> json \<times> json \<times> json \<times> json \<times> json \<times> json
   \<Rightarrow> (py_error + response) \<times> world" where
  "azure_ingest E w extracted =
     (case extracted of (essentials, desc, pipeline, runid, logic_app_run_id, processing_mode) \<Rightarrow>
      (case duplicate_check E w ''Logic App'' pipeline runid of
         (Inl e, w1) \<Rightarrow> (Inl e, w1)
       | (Inr (Some duplicate), w1) \<Rightarrow> (Inr duplicate, w1)
       | (Inr None, w1) \<Rightarrow>
           (case extract_finops_tags pipeline ''adf'' of
              Inl e \<Rightarrow> (Inl e, w1)
            | Inr finops_tags \<Rightarrow>
                let w2 = emit (AiCall (pstr E desc) ''adf'') w1
                in (case classify_ticket E desc ''adf'' of
                      Inl e \<Rightarrow> (Inl e, w2)
                    | Inr (rca, severity, priority, sla_seconds) \<Rightarrow>
                        let tid = ''ADF-'' @ utc_stamp E @ ''-'' @ uuid6 E;
                            (blob_url, w3) = blob_step E w2 tid;
                            data = ticket_data E tid pipeline runid rca severity priority
                                     sla_seconds finops_tags blob_url logic_app_run_id
                                     processing_mode
                        in (case insert_or_race E w3 runid data of
                              (Inl e, w4) \<Rightarrow> (Inl e, w4)
                            | (Inr (Some race), w4) \<Rightarrow> (Inr race, w4)
                            | (Inr None, w4) \<Rightarrow>
                                azure_after_insert E w4 tid pipeline runid rca severity priority
                                  finops_tags logic_app_run_id processing_mode)))))"

definition azure_monitor ::
  "ingest_env \<Rightarrow> world \<Rightarrow> string option \<Rightarrow> json option \<Rightarrow> (py_error + response) \<times> world" where
  "azure_monitor E w x_api_key request_json =
     (if x_api_key \<noteq> Some (RCA_API_KEY E) then (Inl (HTTPException 401 ''Unauthorized''), w)
      else (case request_json of
              None \<Rightarrow> (Inl (HTTPException 400 ''Invalid JSON payload''), w)
            | Some body \<Rightarrow>
                (case azure_fields E body of
                   Inl e \<Rightarrow> (Inl e, w)
                 | Inr extracted \<Rightarrow> azure_ingest E w extracted)))"

text \<open>
  \<open>databricks_monitor\<close>. A value is sliced for the log line \<open>error_message[:200]\<close>; a
  truthy value that is neither a string nor a list makes that raise.
\<close>

fun sliceable :: "json \<Rightarrow> py_error + unit" where
  "sliceable (JStr s) = Inr ()"
| "sliceable (JArr xs) = Inr ()"
| "sliceable (JObj kvs) = Inl (TypeError ''unhashable type: 'slice' '')"
| "sliceable v =
     Inl (TypeError ([CHR 0x27] @ py_type_name v @ [CHR 0x27] @ '' object is not subscriptable''))"

text \<open>
  The fields taken from the body: \<open>(job_name, run_id, job_id, error_message,
  cluster_id)\<close>.
\<close>

definition databricks_fields ::
  "ingest_env \<Rightarrow> json \<Rightarrow> py_error + json \<times> json \<times> json \<times> json \<times> json" where
  "databricks_fields E body =
     bindE (py_ors [py_get body ''event'', py_get body ''event_type'']) (\<lambda>event_type.
     bindE
       (if truthy event_type then
          bindE (py_get_d body ''job'' (JObj [])) (\<lambda>job_obj.
          bindE (py_get_d body ''run'' (JObj [])) (\<lambda>run_obj.
          bindE (py_ors [get2 job_obj ''settings'' ''name'', py_get run_obj ''run_name'',
                         py_get body ''job_name'', py_get body ''JobName'',
                         Inr (JStr ''Databricks Job/Cluster'')]) (\<lambda>job_name.
          bindE (py_ors [py_get body ''run_id'', py_get body ''RunId'', py_get run_obj ''run_id'',
                         py_get body ''job_run_id'', py_get body ''JobRunId'']) (\<lambda>run_id.
          bindE (py_ors [py_get body ''job_id'', py_get body ''JobId'', py_get job_obj ''job_id'',
                         py_get run_obj ''job_id'']) (\<lambda>job_id.
          bindE (py_ors [get2 run_obj ''state'' ''state_message'', py_get run_obj ''state_message'',
                         py_get body ''error_message'', py_get body ''ErrorMessage'',
                         Inr (JStr (''Databricks job event: '' @ pstr E event_type))])
            (\<lambda>error_message. Inr (job_name, run_id, job_id, error_message)))))))
        else
          bindE (py_ors [py_get body ''job_name'', py_get body ''JobName'',
                         py_get body ''cluster_name'', py_get body ''ClusterName'',
                         py_get body ''notebook_path'', py_get body ''NotebookPath'',
                         Inr (JStr ''Databricks Job/Cluster'')]) (\<lambda>job_name.
          bindE (py_ors [py_get body ''run_id'', py_get body ''RunId'',
                         py_get body ''job_run_id'', py_get body ''JobRunId'',
                         py_get body ''cluster_id'', py_get body ''ClusterId'']) (\<lambda>run_id.
          bindE (py_ors [py_get body ''error_message'', py_get body ''ErrorMessage'',
                         py_get body ''exception_message'', py_get body ''ExceptionMessage'',
                         py_get body ''error'', py_get body ''Error'',
                         py_get body ''state_message'', py_get body ''StateMessage'',
                         Inr (JStr (pstr E body))]) (\<lambda>error_message.
          bindE (py_ors [py_get body ''job_id'', py_get body ''JobId'', Inr (JStr ''N/A'')])
            (\<lambda>job_id. Inr (job_name, run_id, job_id, error_message))))))
       (\<lambda>(job_name, run_id, job_id, error_message).
     bindE (py_ors [py_get body ''cluster_id'', py_get body ''ClusterId'', Inr (JStr ''N/A'')])
       (\<lambda>cluster_id.
     bindE (sliceable error_message) (\<lambda>u.
       Inr (job_name, run_id, job_id, error_message, cluster_id)))))"

text \<open>
  The look-up of the run in the Databricks Jobs API, inside \<open>try/except Exception\<close>:
  an exception ends the block and keeps the assignments made before it.
\<close>

definition refine_from_api ::
  "ingest_env \<Rightarrow> json \<times> json \<times> json \<times> json \<times> json \<Rightarrow> json \<times> json \<times> json \<times> json \<times> json" where
  "refine_from_api E extracted =
     (case extracted of (job_name, run_id, job_id, error_message, cluster_id) \<Rightarrow>
      (case fetch_databricks_run_details E run_id of
         Inl e \<Rightarrow> extracted
       | Inr dbx_details \<Rightarrow>
           if \<not> truthy dbx_details then extracted
           else
             (case (case extract_error_message E dbx_details of
                      Inl e \<Rightarrow> Inl e
                    | Inr extracted_error \<Rightarrow>
                        if truthy extracted_error
                        then bindE (sliceable extracted_error) (\<lambda>u. Inr extracted_error)
                        else bindE (py_get_d dbx_details ''state'' (JObj []))
                               (\<lambda>state. Inr error_message)) of
                Inl e \<Rightarrow> extracted
              | Inr error_message' \<Rightarrow>
                  (case py_ors [py_get dbx_details ''run_name'', Inr job_name] of
                     Inl e \<Rightarrow> (job_name, run_id, job_id, error_message', cluster_id)
                   | Inr job_name' \<Rightarrow>
                       (case py_ors [py_get dbx_details ''job_id'', Inr job_id] of
                          Inl e \<Rightarrow> (job_name', run_id, job_id, error_message', cluster_id)
                        | Inr job_id' \<Rightarrow>
                            (case py_ors [get2 dbx_details ''cluster_instance'' ''cluster_id'',
                                          Inr cluster_id] of
                               Inl e \<Rightarrow> (job_name', run_id, job_id', error_message', cluster_id)
                             | Inr cluster_id' \<Rightarrow>
                                 (job_name', run_id, job_id', error_message', cluster_id')))))))"

definition databricks_after_insert ::
  "ingest_env \<Rightarrow> world \<Rightarrow> string \<Rightarrow> json \<Rightarrow> json \<Rightarrow> (string \<times> json) list \<Rightarrow> json \<Rightarrow> json
   \<Rightarrow> (string \<times> json) list \<Rightarrow> json \<Rightarrow> json \<Rightarrow> (py_error + response) \<times> world" where
  "databricks_after_insert E w tid job_name run_id rca severity priority finops_tags
     job_id cluster_id =
     (case rca_summary (dict_get rca ''root_cause'') of
        Inl e \<Rightarrow> (Inl e, w)
      | Inr summary \<Rightarrow>
          let w1 = log_audit w
                [(''ticket_id'', Py (JStr tid)),
                 (''action'', Py (JStr ''Ticket Created'')),
                 (''pipeline'', Py job_name),
                 (''run_id'', Py run_id),
                 (''rca_summary'', Py summary),
                 (''sla_status'', Py (JStr ''Pending'')),
                 (''finops_team'', Py (dict_get finops_tags ''team'')),
                 (''finops_owner'', Py (dict_get finops_tags ''owner'')),
                 (''details'', Py (JStr (''Severity: '' @ pstr E severity @ '', Priority: ''
                     @ pstr E priority @ '', Source: Databricks, JobID: '' @ pstr E job_id
                     @ '', ClusterID: '' @ pstr E cluster_id)))];
              (itsm_ticket_id, w2) = itsm_step E w1 tid;
              w3 = emit (Broadcast tid) w2;
              w4 = slack_step E w3 tid job_name run_id itsm_ticket_id
          in (Inr NoResponse, w4))"

definition databricks_ingest ::
  "ingest_env \<Rightarrow> world \<Rightarrow> json \<times> json \<times> json \<times> json \<times> json \<Rightarrow> (py_error + response) \<times> world" where
  "databricks_ingest E w extracted =
     (case extracted of (job_name, run_id, job_id, error_message, cluster_id) \<Rightarrow>
      (case duplicate_check E w ''Databricks job'' job_name run_id of
         (Inl e, w1) \<Rightarrow> (Inl e, w1)
       | (Inr (Some duplicate), w1) \<Rightarrow> (Inr duplicate, w1)
       | (Inr None, w1) \<Rightarrow>
           (case extract_finops_tags job_name ''databricks'' of
              Inl e \<Rightarrow> (Inl e, w1)
            | Inr finops_tags \<Rightarrow>
                let w2 = emit (AiCall (pstr E error_message) ''databricks'') w1
                in (case classify_ticket E error_message ''databricks'' of
                      Inl e \<Rightarrow> (Inl e, w2)
                    | Inr (rca, severity, priority, sla_seconds) \<Rightarrow>
                        let tid = ''DBX-'' @ utc_stamp E @ ''-'' @ uuid6 E;
                            (blob_url, w3) = blob_step E w2 tid;
                            data = ticket_data E tid job_name run_id rca severity priority
                                     sla_seconds finops_tags blob_url (JStr ''N/A'')
                                     (JStr ''databricks'')
                        in (case insert_or_race E w3 run_id data of
                              (Inl e, w4) \<Rightarrow> (Inl e, w4)
                            | (Inr (Some race), w4) \<Rightarrow> (Inr race, w4)
                            | (Inr None, w4) \<Rightarrow>
                                databricks_after_insert E w4 tid job_name run_id rca severity
                                  priority finops_tags job_id cluster_id)))))"

definition databricks_monitor ::
  "ingest_env \<Rightarrow> world \<Rightarrow> json option \<Rightarrow> (py_error + response) \<times> world" where
  "databricks_monitor E w request_json =
     (case request_json of
        None \<Rightarrow> (Inl (HTTPException 400 ''Invalid JSON payload''), w)
      | Some body \<Rightarrow>
          (case databricks_fields E body of
             Inl e \<Rightarrow> (Inl e, w)
           | Inr extracted \<Rightarrow>
               (case extracted of (job_name, run_id, job_id, error_message, cluster_id) \<Rightarrow>
                  if truthy run_id \<and> py_ne run_id (JStr ''N/A'')
                  then databricks_ingest E (emit (DatabricksFetch run_id) w)
                         (refine_from_api E extracted)
                  else databricks_ingest E w extracted)))"

text \<open>
  What remediation leaves behind: the waits and playbook calls among the effects, and the
  \<open>Auto-Remediation Attempted\<close> rows of the audit trail.
\<close>

fun is_remediation_effect :: "effect \<Rightarrow> bool" where
  "is_remediation_effect (Sleep n) = True"
| "is_remediation_effect (RetryWait n) = True"
| "is_remediation_effect (PlaybookPost url payload) = True"
| "is_remediation_effect e = False"

definition remediation_trace :: "world \<Rightarrow> effect list \<times> row list" where
  "remediation_trace w =
     (filter is_remediation_effect (effects w),
      filter (\<lambda>a. sql_eq (col a ''action'') (SqlText ''Auto-Remediation Attempted''))
        (audit_trail w))"

text \<open>
  What a request is seen to have done: the outcome of the handler, the ids of the ticket
  rows in the table, and the actions of the audit rows, in order.
\<close>

definition ticket_ids :: "world \<Rightarrow> sqlval list" where
  "ticket_ids w = map (\<lambda>t. col t ''id'') (tickets w)"

definition audit_actions :: "world \<Rightarrow> sqlval list" where
  "audit_actions w = map (\<lambda>a. col a ''action'') (audit_trail w)"

definition outcome_of ::
  "(py_error + response) \<times> world \<Rightarrow> (py_error + response) \<times> sqlval list \<times> sqlval list" where
  "outcome_of r = (fst r, ticket_ids (snd r), audit_actions (snd r))"

section \<open>Concrete inputs\<close>

text \<open>
  An environment in which the \<open>retry_pipeline\<close> and \<open>restart_cluster\<close> playbooks are
  configured and answer 200 with a new run id, and some ledgers.
\<close>

definition demo_env :: env where
  "demo_env =
     \<lparr>db_type = Sqlite,
      getenv = (\<lambda>v. if v = ''PLAYBOOK_RETRY_PIPELINE'' then Some ''http://playbooks/retry''
                     else if v = ''PLAYBOOK_RESTART_CLUSTER'' then Some ''http://playbooks/restart''
                     else None),
      py_repr = (\<lambda>v. ''<repr>''),
      utcnow = ''2025-01-01T00:00:00'',
      playbook_endpoint = (\<lambda>url payload attempt.
         Reply 200 ''OK'' (Inr (JObj [(''new_run_id'', JStr ''run-2'')])) ''ok'')\<rparr>"

definition demo_attempted_row :: "string \<Rightarrow> row" where
  "demo_attempted_row r =
     [(''ticket_id'', SqlText ''ADF-1''), (''run_id'', SqlText r),
      (''action'', SqlText ''Auto-Remediation Attempted'')]"

definition empty_world :: world where
  "empty_world = \<lparr>tickets = [], audit_trail = [], effects = []\<rparr>"

definition demo_one_attempt :: world where
  "demo_one_attempt = \<lparr>tickets = [], audit_trail = [demo_attempted_row ''run-1''], effects = []\<rparr>"

text \<open>
  A ledger with three attempts for \<open>run-1\<close>, and a retry configuration whose schedule is
  shorter than its retry ceiling.
\<close>

definition demo_three_attempts :: world where
  "demo_three_attempts =
     \<lparr>tickets = [],
      audit_trail = [demo_attempted_row ''run-1'', demo_attempted_row ''run-1'',
                     demo_attempted_row ''run-1''],
      effects = []\<rparr>"

definition demo_short_schedule :: retry_config where
  "demo_short_schedule =
     \<lparr>max_retries = 5, backoff_seconds = [10, 30], playbook_type = ''retry_pipeline'',
      description = ''Retry with a schedule of two delays''\<rparr>"

definition demo_env_unconfigured :: env where
  "demo_env_unconfigured = demo_env\<lparr>getenv := (\<lambda>v. None)\<rparr>"

definition demo_one_attempt_empty_run :: world where
  "demo_one_attempt_empty_run = \<lparr>tickets = [], audit_trail = [demo_attempted_row ''''], effects = []\<rparr>"

text \<open>
  An ingestion environment with no AI reply, no blob storage, no ITSM tool and no Slack
  token; and one in which the AI answers with a severity and a priority of its own.
\<close>

definition demo_ingest_env :: ingest_env where
  "demo_ingest_env =
     \<lparr>RCA_API_KEY = ''secret'',
      AUTO_REMEDIATION_ENABLED = True,
      PLAYBOOK_REGISTRY = [(''GatewayTimeout'', Some ''http://playbooks/retry'')],
      AZURE_BLOB_ENABLED = False,
      blob_service_client = False,
      ITSM_TOOL = ''none'',
      SLACK_ALERT_CHANNEL = ''aiops-rca-alerts'',
      DB_TYPE = Sqlite,
      str_of_container = (\<lambda>v. ''<repr>''),
      json_dumps = (\<lambda>v. ''<json>''),
      call_ai_for_rca = (\<lambda>desc source_type. JNull),
      utc_stamp = ''20250101T000000'',
      uuid6 = ''abc123'',
      utc_iso = ''2025-01-01T00:00:00+00:00'',
      blob_upload = (\<lambda>tid. Inl ''no container''),
      create_jira_ticket = (\<lambda>tid. Inr JNull),
      broadcast_ok = True,
      slack_post = (\<lambda>tid. Inr JNull),
      fetch_databricks_run_details = (\<lambda>run_id. Inr JNull),
      extract_error_message = (\<lambda>details. Inr JNull),
      concurrent_inserts = [],
      insert_fault = None\<rparr>"

definition demo_ai_reply :: json where
  "demo_ai_reply =
     JObj [(''root_cause'', JStr ''The gateway did not answer in time.''),
           (''error_type'', JStr ''GatewayTimeout''),
           (''severity'', JStr ''Critical''),
           (''priority'', JStr ''P4''),
           (''confidence'', JStr ''High''),
           (''recommendations'', JArr [JStr ''Retry the pipeline'']),
           (''auto_heal_possible'', JBool True)]"

definition demo_ingest_env_ai :: ingest_env where
  "demo_ingest_env_ai = demo_ingest_env\<lparr>call_ai_for_rca := (\<lambda>desc source_type. demo_ai_reply)\<rparr>"




text \<open>Request bodies for \<open>azure_monitor\<close>, and stores.\<close>

definition demo_body :: json where
  "demo_body =
     JObj [(''essentials'', JObj [(''alertRule'', JStr ''CopyPipeline''),
                                  (''alertId'', JStr ''run-1''),
                                  (''description'', JStr ''Gateway timeout'')])]"

definition demo_body_empty_run :: json where
  "demo_body_empty_run =
     JObj [(''essentials'', JObj [(''alertRule'', JStr ''CopyPipeline''),
                                  (''alertId'', JStr ''''),
                                  (''description'', JStr ''Gateway timeout'')])]"

definition demo_body_odd_pipeline :: json where
  "demo_body_odd_pipeline =
     JObj [(''essentials'', JObj [(''alertRule'', JArr [JStr ''CopyPipeline'']),
                                  (''alertId'', JStr ''run-1''),
                                  (''description'', JStr ''Gateway timeout'')])]"

definition demo_ticket :: "string \<Rightarrow> string \<Rightarrow> row" where
  "demo_ticket tid r = [(''id'', SqlText tid), (''run_id'', SqlText r), (''status'', SqlText ''open'')]"

definition demo_store :: "row list \<Rightarrow> world" where
  "demo_store ts = \<lparr>tickets = ts, audit_trail = [], effects = []\<rparr>"


text \<open>
  Ingestion environments in which another request commits a ticket for \<open>run-1\<close> between
  the duplicate check and the insert; in which the insert hits a locked database; and in
  which Jira and Slack both fail.
\<close>

definition demo_ingest_env_race :: ingest_env where
  "demo_ingest_env_race = demo_ingest_env\<lparr>concurrent_inserts := [demo_ticket ''ADF-9'' ''run-1'']\<rparr>"

definition demo_ingest_env_locked :: ingest_env where
  "demo_ingest_env_locked = demo_ingest_env\<lparr>insert_fault := Some ''database is locked''\<rparr>"

definition demo_ingest_env_failing :: ingest_env where
  "demo_ingest_env_failing =
     demo_ingest_env\<lparr>ITSM_TOOL := ''jira'',
       create_jira_ticket := (\<lambda>tid. Inl (RequestException ''Jira is down'')),
       slack_post := (\<lambda>tid. Inl (TypeError ''unhashable type'')),
       broadcast_ok := False\<rparr>"

text \<open>The ticket id the demo clock and suffix give, and a Databricks request body.\<close>

definition demo_tid :: string where
  "demo_tid = ''ADF-20250101T000000-abc123''"

definition demo_dbx_body :: json where
  "demo_dbx_body = JObj [(''run_id'', JNum 77), (''error_message'', JStr ''Job failed'')]"


section \<open>Facts about the audit ledger\<close>

lemma bindE_Inr_iff: "bindE m f = Inr y \<longleftrightarrow> (\<exists>x. m = Inr x \<and> f x = Inr y)"
  by (cases m) auto

lemma bind_all_map_of:
  "bind_all kvs = Inr r \<Longrightarrow> map_of kvs c = Some v \<Longrightarrow>
   \<exists>x. bind_param v = Inr x \<and> map_of r c = Some x"
proof (induction kvs arbitrary: r)
  case Nil
  then show ?case by simp
next
  case (Cons kv kvs)
  obtain k u where kv: "kv = (k, u)" by (cases kv)
  from Cons.prems(1) kv obtain x r' where
    x: "bind_param u = Inr x" and r': "bind_all kvs = Inr r'" and r: "r = (k, x) # r'"
    by (auto simp: bindE_Inr_iff)
  show ?case
  proof (cases "k = c")
    case True
    then show ?thesis using Cons.prems(2) kv x r by simp
  next
    case False
    then have "map_of kvs c = Some v" using Cons.prems(2) kv by simp
    from Cons.IH [OF r' this] show ?thesis using False r by simp
  qed
qed

lemma audit_row_col:
  assumes "bind_all (map (\<lambda>c. (c, kwarg kw c)) audit_columns) = Inr r"
    and "c \<in> set audit_columns"
  shows "bind_param (kwarg kw c) = Inr (col r c)"
proof -
  have m: "map_of (map (\<lambda>c. (c, kwarg kw c)) audit_columns) c = Some (kwarg kw c)"
    using assms(2) by (simp add: map_of_map_restrict)
  show ?thesis
    using bind_all_map_of [OF assms(1) m] by (auto simp: col_def)
qed

lemma log_audit_cases:
  "log_audit w kw = w \<or>
   (\<exists>r. bind_all (map (\<lambda>c. (c, kwarg kw c)) audit_columns) = Inr r \<and>
        log_audit w kw = w\<lparr>audit_trail := audit_trail w @ [r]\<rparr>)"
  by (auto simp: log_audit_def split: sum.splits)

lemma log_audit_effects [simp]: "effects (log_audit w kw) = effects w"
  using log_audit_cases [of w kw] by auto

lemma log_audit_tickets [simp]: "tickets (log_audit w kw) = tickets w"
  using log_audit_cases [of w kw] by auto

lemma log_audit_attempted_le:
  "length (attempted_rows (log_audit w kw) x) \<le> Suc (length (attempted_rows w x))"
  using log_audit_cases [of w kw] by (auto simp: attempted_rows_def)

lemma log_audit_other_action:
  assumes "kwarg kw ''action'' = Py (JStr a)" and "a \<noteq> ''Auto-Remediation Attempted''"
  shows "attempted_rows (log_audit w kw) x = attempted_rows w x"
proof -
  from log_audit_cases [of w kw] show ?thesis
  proof
    assume "log_audit w kw = w"
    then show ?thesis by simp
  next
    assume "\<exists>r. bind_all (map (\<lambda>c. (c, kwarg kw c)) audit_columns) = Inr r \<and>
        log_audit w kw = w\<lparr>audit_trail := audit_trail w @ [r]\<rparr>"
    then obtain r where b: "bind_all (map (\<lambda>c. (c, kwarg kw c)) audit_columns) = Inr r"
      and l: "log_audit w kw = w\<lparr>audit_trail := audit_trail w @ [r]\<rparr>" by blast
    have "bind_param (kwarg kw ''action'') = Inr (col r ''action'')"
      by (rule audit_row_col [OF b]) (simp add: audit_columns_def)
    then have "col r ''action'' = SqlText a" using assms(1) by simp
    then show ?thesis using l assms(2) by (simp add: attempted_rows_def sql_eq_def)
  qed
qed

lemma emit_attempted [simp]: "attempted_rows (emit e w) x = attempted_rows w x"
  by (simp add: attempted_rows_def emit_def)

lemma http_post_audit [simp]:
  "audit_trail (snd (http_post_with_retries E url p n a k w)) = audit_trail w"
  by (induction k arbitrary: a w) (auto simp: Let_def emit_def split: sum.splits)

lemma http_post_attempted:
  "attempted_rows (snd (http_post_with_retries E url p n a k w)) x = attempted_rows w x"
  by (simp add: attempted_rows_def)

lemma update_ticket_audit:
  "update_ticket d w c v tid = Inr w' \<Longrightarrow> audit_trail w' = audit_trail w"
  by (auto simp: update_ticket_def bindE_Inr_iff Let_def split: if_splits)


lemma playbook_failed_attempted [simp]:
  "attempted_rows (snd (playbook_failed w tid r e)) x = attempted_rows w x"
  unfolding playbook_failed_def
  by (simp add: log_audit_other_action kwarg_def)

lemma update_ticket_attempted:
  "update_ticket d w c v t = Inr w' \<Longrightarrow> attempted_rows w' x = attempted_rows w x"
  by (simp add: attempted_rows_def update_ticket_audit)

lemma playbook_success_attempted:
  "attempted_rows (log_audit w
      [(''ticket_id'', Py (JStr tid)), (''action'', Py (JStr ''Auto-Remediation Succeeded'')),
       (''run_id'', rv), (''details'', dv)]) x = attempted_rows w x"
  by (rule log_audit_other_action [where a = "''Auto-Remediation Succeeded''"])
     (simp_all add: kwarg_def)

lemma playbook_failure_attempted:
  "attempted_rows (log_audit w
      [(''ticket_id'', Py (JStr tid)), (''action'', Py (JStr ''Auto-Remediation Failed'')),
       (''run_id'', rv), (''details'', dv)]) x = attempted_rows w x"
  by (rule log_audit_other_action [where a = "''Auto-Remediation Failed''"])
     (simp_all add: kwarg_def)

lemma trigger_playbook_attempted:
  "attempted_rows (snd (trigger_playbook E w tid r pb url payload)) x = attempted_rows w x"
proof -
  obtain res w1 where h: "http_post_with_retries E url payload 3 0 3 w = (res, w1)"
    by (cases "http_post_with_retries E url payload 3 0 3 w")
  have w1: "attempted_rows w1 x = attempted_rows w x"
    using http_post_attempted [of E url payload 3 0 3 w x] h by simp
  show ?thesis
  proof (cases res)
    case (Inl e)
    then show ?thesis unfolding trigger_playbook_def h by (simp add: w1)
  next
    case (Inr ro)
    show ?thesis
    proof (cases ro)
      case None
      then show ?thesis unfolding trigger_playbook_def h Inr by (simp add: w1)
    next
      case (Some reply)
      show ?thesis
      proof (cases reply)
        case (NetError m)
        then show ?thesis unfolding trigger_playbook_def h Inr Some by (simp add: w1)
      next
        case (Reply code reason body tx)
        show ?thesis
        proof (cases "code = 200")
          case False
          then show ?thesis unfolding trigger_playbook_def h Inr Some Reply
            by (simp add: w1 playbook_failure_attempted)
        next
          case True
          show ?thesis
          proof (cases body)
            case (Inl e)
            then show ?thesis unfolding trigger_playbook_def h Inr Some Reply
              by (simp add: w1 True)
          next
            case body: (Inr result)
            show ?thesis
            proof (cases "py_or (py_get result ''new_run_id'') (py_get result ''run_id'')")
              case (Inl e)
              then show ?thesis unfolding trigger_playbook_def h Inr Some Reply body
                by (simp add: w1 True)
            next
              case new: (Inr new_run_id)
              show ?thesis unfolding trigger_playbook_def h Inr Some Reply body
                by (simp add: w1 True new Let_def playbook_success_attempted
                      update_ticket_attempted split: sum.splits)
            qed
          qed
        qed
      qed
    qed
  qed
qed

lemma table_entry:
  assumes "map_of RETRY_ELIGIBLE_ERRORS k = Some c"
  shows "backoff_seconds c \<noteq> [] \<and> map_of PLAYBOOK_ENV_VARS (playbook_type c) \<noteq> None
         \<and> length (backoff_seconds c) = max_retries c"
proof -
  have "(k, c) \<in> set RETRY_ELIGIBLE_ERRORS" using assms by (rule map_of_SomeD)
  then show ?thesis
    unfolding RETRY_ELIGIBLE_ERRORS_def PLAYBOOK_ENV_VARS_def by auto
qed

lemma http_post_effects:
  "\<exists>rest. effects (snd (http_post_with_retries E url p n a k w)) = effects w @ rest"
proof (induction k arbitrary: a w)
  case 0
  then show ?case by simp
next
  case (Suc k)
  show ?case
  proof (cases "raise_for_status url (playbook_endpoint E url p a)")
    case (Inr r)
    then show ?thesis by (simp add: emit_def)
  next
    case (Inl e)
    show ?thesis
    proof (cases "a + 1 < n")
      case False
      then show ?thesis using Inl by (simp add: emit_def)
    next
      case True
      from Suc.IH [of "a + 1" "emit (RetryWait a) (emit (PlaybookPost url p) w)"]
      obtain rest where "effects (snd (http_post_with_retries E url p n (a + 1) k
          (emit (RetryWait a) (emit (PlaybookPost url p) w)))) =
          effects (emit (RetryWait a) (emit (PlaybookPost url p) w)) @ rest" by blast
      then show ?thesis using Inl True by (simp add: emit_def)
    qed
  qed
qed

lemma update_ticket_effects:
  "update_ticket d w c v t = Inr w' \<Longrightarrow> effects w' = effects w"
  by (auto simp: update_ticket_def bindE_Inr_iff Let_def split: if_splits)

lemma playbook_failed_effects [simp]:
  "effects (snd (playbook_failed w tid r e)) = effects w"
  by (simp add: playbook_failed_def)

lemma trigger_playbook_effects:
  "\<exists>rest. effects (snd (trigger_playbook E w tid r pb url payload)) = effects w @ rest"
proof -
  obtain res w1 where h: "http_post_with_retries E url payload 3 0 3 w = (res, w1)"
    by (cases "http_post_with_retries E url payload 3 0 3 w")
  from http_post_effects [of E url payload 3 0 3 w] h
  obtain rest where w1: "effects w1 = effects w @ rest" by auto
  have "effects (snd (trigger_playbook E w tid r pb url payload)) = effects w1"
    unfolding trigger_playbook_def h
    by (auto simp: Let_def dest: update_ticket_effects
          split: sum.splits option.splits http_reply.splits)
  then show ?thesis using w1 by simp
qed


lemma remediate_bound:
  assumes "truthy (dict_get metadata ''run_id'')"
    and "bind_param (Py (dict_get metadata ''run_id'')) = Inr x"
    and "length (attempted_rows w x) \<le> max_retries c"
  shows "length (attempted_rows (snd (remediate E w tid k metadata c url)) x) \<le> max_retries c"
proof -
  let ?n = "length (attempted_rows w x)"
  have cnt: "count_attempted w (dict_get metadata ''run_id'') = Inr ?n"
    using assms(2) by (simp add: count_attempted_def)
  show ?thesis
  proof (cases "max_retries c \<le> ?n")
    case True
    then show ?thesis
      using assms cnt
      by (simp add: remediate_def Let_def
            log_audit_other_action [where a = "''Auto-Remediation Max Retries Reached''"] kwarg_def)
  next
    case False
    show ?thesis
    proof (cases "backoff_delay (backoff_seconds c) ?n")
      case (Inl e)
      then show ?thesis using assms cnt False by (simp add: remediate_def Let_def)
    next
      case (Inr delay)
      have "\<And>kw. length (attempted_rows (log_audit w kw) x) \<le> max_retries c"
        using log_audit_attempted_le [of w _ x] False
        by (meson Suc_leI le_trans not_le)
      then show ?thesis
        using assms(1) cnt False Inr
        by (simp add: remediate_def Let_def trigger_playbook_attempted)
    qed
  qed
qed

lemma attempt_bound:
  assumes "map_of RETRY_ELIGIBLE_ERRORS k = Some c"
    and "truthy (dict_get metadata ''run_id'')"
    and "bind_param (Py (dict_get metadata ''run_id'')) = Inr x"
    and "length (attempted_rows w x) \<le> max_retries c"
  shows "length (attempted_rows (snd (attempt_auto_remediation E w tid k metadata)) x)
           \<le> max_retries c"
  using assms remediate_bound [OF assms(2,3,4)]
  by (simp add: attempt_auto_remediation_def
        log_audit_other_action [where a = "''Auto-Remediation Skipped''"] kwarg_def
        split: option.splits list.splits)

lemma truthy_bind_not_null:
  "truthy v \<Longrightarrow> bind_param (Py v) = Inr x \<Longrightarrow> x \<noteq> SqlNull"
  by (cases v) (auto split: if_splits)

lemma attempted_filter:
  "x \<noteq> SqlNull \<Longrightarrow>
   attempted_rows w x =
     filter (\<lambda>a. col a ''run_id'' = x \<and> col a ''action'' = SqlText ''Auto-Remediation Attempted'')
       (audit_trail w)"
  unfolding attempted_rows_def by (rule filter_cong) (auto simp: sql_eq_def)

lemma log_audit_other_run:
  assumes "bind_param (kwarg kw ''run_id'') \<noteq> Inr x"
  shows "attempted_rows (log_audit w kw) x = attempted_rows w x"
proof -
  from log_audit_cases [of w kw] show ?thesis
  proof
    assume "log_audit w kw = w"
    then show ?thesis by simp
  next
    assume "\<exists>r. bind_all (map (\<lambda>c. (c, kwarg kw c)) audit_columns) = Inr r \<and>
        log_audit w kw = w\<lparr>audit_trail := audit_trail w @ [r]\<rparr>"
    then obtain r where b: "bind_all (map (\<lambda>c. (c, kwarg kw c)) audit_columns) = Inr r"
      and l: "log_audit w kw = w\<lparr>audit_trail := audit_trail w @ [r]\<rparr>" by blast
    have "bind_param (kwarg kw ''run_id'') = Inr (col r ''run_id'')"
      by (rule audit_row_col [OF b]) (simp add: audit_columns_def)
    then have "col r ''run_id'' \<noteq> x" using assms by auto
    then show ?thesis using l by (simp add: attempted_rows_def sql_eq_def)
  qed
qed

lemma remediate_other_run:
  assumes "bind_param (Py (dict_get metadata ''run_id'')) \<noteq> Inr x"
  shows "attempted_rows (snd (remediate E w tid k metadata c url)) x = attempted_rows w x"
proof (cases "if truthy (dict_get metadata ''run_id'')
              then count_attempted w (dict_get metadata ''run_id'') else Inr 0")
  case (Inl e)
  then show ?thesis by (simp add: remediate_def Let_def)
next
  case (Inr n)
  show ?thesis
  proof (cases "truthy (dict_get metadata ''run_id'') \<and> max_retries c \<le> n")
    case True
    then show ?thesis using Inr
      by (simp add: remediate_def Let_def
            log_audit_other_action [where a = "''Auto-Remediation Max Retries Reached''"] kwarg_def)
  next
    case False
    show ?thesis
    proof (cases "backoff_delay (backoff_seconds c) n")
      case (Inl e)
      then show ?thesis using Inr False by (auto simp: remediate_def Let_def)
    next
      case d: (Inr delay)
      have "\<And>dv. attempted_rows (log_audit w
              [(''ticket_id'', Py (JStr tid)), (''action'', Py (JStr ''Auto-Remediation Attempted'')),
               (''run_id'', Py (dict_get metadata ''run_id'')), (''details'', dv)]) x
            = attempted_rows w x"
        by (rule log_audit_other_run) (use assms in \<open>simp add: kwarg_def\<close>)
      then show ?thesis using Inr False d
        by (auto simp: remediate_def Let_def trigger_playbook_attempted)
    qed
  qed
qed

lemma attempt_other_run:
  assumes "bind_param (Py (dict_get metadata ''run_id'')) \<noteq> Inr x"
  shows "attempted_rows (snd (attempt_auto_remediation E w tid k metadata)) x = attempted_rows w x"
  using remediate_other_run [OF assms]
  by (simp add: attempt_auto_remediation_def
        log_audit_other_action [where a = "''Auto-Remediation Skipped''"] kwarg_def
        split: option.splits list.splits)

lemma evaluations_bound:
  assumes "map_of RETRY_ELIGIBLE_ERRORS k = Some c"
    and "truthy run_id"
    and "bind_param (Py run_id) = Inr x"
  shows "\<forall>(E, tid, k', md) \<in> set es.
            (k' = k \<and> dict_get md ''run_id'' = run_id)
            \<or> bind_param (Py (dict_get md ''run_id'')) \<noteq> Inr x \<Longrightarrow>
         length (attempted_rows w x) \<le> max_retries c \<Longrightarrow>
         length (attempted_rows (evaluations w es) x) \<le> max_retries c"
proof (induction es arbitrary: w)
  case Nil
  then show ?case by simp
next
  case (Cons e es)
  obtain E tid k' md where e: "e = (E, tid, k', md)" by (cases e)
  have rest: "\<forall>(E, tid, k', md) \<in> set es.
            (k' = k \<and> dict_get md ''run_id'' = run_id)
            \<or> bind_param (Py (dict_get md ''run_id'')) \<noteq> Inr x"
    using Cons.prems(1) by simp
  have "length (attempted_rows (snd (attempt_auto_remediation E w tid k' md)) x) \<le> max_retries c"
  proof (cases "k' = k \<and> dict_get md ''run_id'' = run_id")
    case True
    then show ?thesis
      using attempt_bound [of k c md x w E tid] assms Cons.prems(2) by simp
  next
    case False
    then have "bind_param (Py (dict_get md ''run_id'')) \<noteq> Inr x"
      using Cons.prems(1) e by auto
    then show ?thesis using attempt_other_run [of md x E w tid k'] Cons.prems(2) by simp
  qed
  then show ?case
    unfolding e evaluations.simps by (rule Cons.IH [OF rest])
qed

lemma log_audit_four:
  assumes "bind_param (Py rv) = Inr x"
  shows "log_audit w [(''ticket_id'', Py (JStr tid)), (''action'', Py (JStr a)),
                      (''run_id'', Py rv), (''details'', Py (JStr d))] =
         w\<lparr>audit_trail := audit_trail w @
            [[(''ticket_id'', SqlText tid), (''pipeline'', SqlNull), (''run_id'', x),
              (''action'', SqlText a), (''user_name'', SqlNull), (''user_empid'', SqlNull),
              (''time_taken_seconds'', SqlNull), (''mttr_minutes'', SqlNull),
              (''sla_status'', SqlNull), (''rca_summary'', SqlNull), (''finops_team'', SqlNull),
              (''finops_owner'', SqlNull), (''details'', SqlText d),
              (''itsm_ticket_id'', SqlNull)]]\<rparr>"
  using assms by (simp add: log_audit_def audit_columns_def kwarg_def col_def)

lemma ceiling_reached:
  assumes "map_of RETRY_ELIGIBLE_ERRORS k = Some c"
    and "truthy (dict_get metadata ''run_id'')"
    and "bind_param (Py (dict_get metadata ''run_id'')) = Inr x"
    and "max_retries c \<le> length (attempted_rows w x)"
    and "get_playbook_url E k = Some url" and "url \<noteq> []"
  shows "\<exists>r. attempt_auto_remediation E w tid k metadata =
               (Inr False, w\<lparr>audit_trail := audit_trail w @ [r]\<rparr>)
             \<and> col r ''action'' = SqlText ''Auto-Remediation Max Retries Reached''
             \<and> col r ''run_id'' = x \<and> col r ''ticket_id'' = SqlText tid"
proof -
  from table_entry [OF assms(1)] obtain var where
    var: "map_of PLAYBOOK_ENV_VARS (playbook_type c) = Some var" by auto
  have url: "getenv E var = Some url"
    using assms(5) assms(1) var by (simp add: get_playbook_url_def)
  obtain u us where u: "url = u # us" using assms(6) by (cases url) auto
  have a: "attempt_auto_remediation E w tid k metadata = remediate E w tid k metadata c url"
    using assms(1) var url u by (simp add: attempt_auto_remediation_def)
  have cnt: "count_attempted w (dict_get metadata ''run_id'') = Inr (length (attempted_rows w x))"
    using assms(3) by (simp add: count_attempted_def)
  have r: "remediate E w tid k metadata c url =
     (Inr False, log_audit w
        [(''ticket_id'', Py (JStr tid)),
         (''action'', Py (JStr ''Auto-Remediation Max Retries Reached'')),
         (''run_id'', Py (dict_get metadata ''run_id'')),
         (''details'', Py (JStr (''Attempted '' @ show_nat (length (attempted_rows w x))
                              @ '' times. Error: '' @ k
                              @ ''. Manual intervention required.'')))])"
    using assms(2,4) cnt by (simp add: remediate_def Let_def del: show_nat.simps)
  show ?thesis
    unfolding a r log_audit_four [OF assms(3)]
    by (intro exI conjI, rule refl) (simp_all add: col_def)
qed

section \<open>Claims about the retry orchestrator\<close>

text \<open>
  C4, as the code has it. The attempt count \<open>i\<close> is the number of
  \<open>Auto-Remediation Attempted\<close> rows of the run id when the run id is truthy, and 0 when
  it is not, whatever the ledger holds. An evaluation that is not stopped by the retry
  ceiling then waits exactly \<open>backoff_seconds c ! min i (length (backoff_seconds c) - 1)\<close>
  seconds, and that wait is the first thing it does to the outside world. This holds of
  the code after the table look-up for every retry configuration with a schedule, so also
  where the schedule is shorter than the retry ceiling and the last delay is used; and it
  holds of \<open>attempt_auto_remediation\<close> for the entries of the shipped table, in which the
  schedule is as long as the ceiling.
\<close>

theorem backoff_delay_is_clamped_schedule_entry:
  assumes "dict_get metadata ''run_id'' = run_id"
    and "truthy run_id \<longrightarrow> bind_param (Py run_id) = Inr x"
    and "i = (if truthy run_id
              then length (filter (\<lambda>a. col a ''run_id'' = x
                     \<and> col a ''action'' = SqlText ''Auto-Remediation Attempted'') (audit_trail w))
              else 0)"
    and "\<not> (truthy run_id \<and> max_retries c \<le> i)"
    and "backoff_seconds c \<noteq> []"
  shows "(\<exists>rest. effects (snd (remediate E w tid k metadata c url)) =
            effects w @ Sleep (backoff_seconds c ! min i (length (backoff_seconds c) - 1)) # rest)
       \<and> (length (backoff_seconds c) \<le> i \<longrightarrow>
            (\<exists>rest. effects (snd (remediate E w tid k metadata c url)) =
               effects w @ Sleep (last (backoff_seconds c)) # rest))
       \<and> (map_of RETRY_ELIGIBLE_ERRORS k = Some c \<and> get_playbook_url E k = Some url \<and> url \<noteq> []
            \<longrightarrow> (\<exists>rest. effects (snd (attempt_auto_remediation E w tid k metadata)) =
                   effects w @ Sleep (backoff_seconds c ! min i (length (backoff_seconds c) - 1))
                     # rest))"
proof -
  let ?d = "backoff_seconds c ! min i (length (backoff_seconds c) - 1)"
  have cnt: "(if truthy (dict_get metadata ''run_id'')
              then count_attempted w (dict_get metadata ''run_id'') else Inr 0) = Inr i"
  proof (cases "truthy run_id")
    case True
    then have b: "bind_param (Py run_id) = Inr x" using assms(2) by simp
    have "x \<noteq> SqlNull" using True b by (rule truthy_bind_not_null)
    then show ?thesis
      using True b assms(1,3) by (simp add: count_attempted_def attempted_filter)
  next
    case False
    then show ?thesis using assms(1,3) by simp
  qed
  have d: "backoff_delay (backoff_seconds c) i = Inr ?d"
    using assms(5) by (simp add: backoff_delay_def)
  obtain w2 payload where
    r: "remediate E w tid k metadata c url =
          trigger_playbook E w2 tid (dict_get metadata ''run_id'') (playbook_type c) url payload"
    and w2: "effects w2 = effects w @ [Sleep ?d]"
    using cnt assms(1,4) d by (auto simp: remediate_def Let_def emit_def)
  from trigger_playbook_effects [of E w2 tid "dict_get metadata ''run_id''" "playbook_type c" url payload]
  have main: "\<exists>rest. effects (snd (remediate E w tid k metadata c url)) = effects w @ Sleep ?d # rest"
    using r w2 by auto
  have clamp: "?d = last (backoff_seconds c)" if "length (backoff_seconds c) \<le> i"
  proof -
    have "0 < length (backoff_seconds c)" using assms(5) by simp
    then have "min i (length (backoff_seconds c) - 1) = length (backoff_seconds c) - 1"
      using that by simp
    then show ?thesis using assms(5) by (simp add: last_conv_nth)
  qed
  have table: "\<exists>rest. effects (snd (attempt_auto_remediation E w tid k metadata)) =
                 effects w @ Sleep ?d # rest"
    if t: "map_of RETRY_ELIGIBLE_ERRORS k = Some c \<and> get_playbook_url E k = Some url \<and> url \<noteq> []"
  proof -
    from t have t1: "map_of RETRY_ELIGIBLE_ERRORS k = Some c"
      and t2: "get_playbook_url E k = Some url" and t3: "url \<noteq> []" by simp_all
    from table_entry [OF t1] obtain var where
      var: "map_of PLAYBOOK_ENV_VARS (playbook_type c) = Some var" by auto
    have url: "getenv E var = Some url"
      using t2 t1 var by (simp add: get_playbook_url_def)
    obtain u us where u: "url = u # us" using t3 by (cases url) auto
    have "attempt_auto_remediation E w tid k metadata = remediate E w tid k metadata c url"
      using t1 var url u by (simp add: attempt_auto_remediation_def)
    then show ?thesis using main by simp
  qed
  show ?thesis using main clamp table by auto
qed

theorem backoff_delay_is_clamped_schedule_entry_witness:
  "(\<exists>rest. effects (snd (remediate demo_env demo_three_attempts ''ADF-1'' ''GatewayTimeout''
       [(''run_id'', JStr ''run-1'')] demo_short_schedule ''http://playbooks/retry''))
       = Sleep 30 # rest)
   \<and> (\<exists>rest. effects (snd (attempt_auto_remediation demo_env demo_one_attempt ''ADF-1''
       ''GatewayTimeout'' [(''run_id'', JStr ''run-1'')])) = Sleep 30 # rest)"
  using backoff_delay_is_clamped_schedule_entry
    [of "[(''run_id'', JStr ''run-1'')]" "JStr ''run-1''" "SqlText ''run-1''" 3
        demo_three_attempts demo_short_schedule demo_env "''ADF-1''" "''GatewayTimeout''"
        "''http://playbooks/retry''"]
    backoff_delay_is_clamped_schedule_entry
    [of "[(''run_id'', JStr ''run-1'')]" "JStr ''run-1''" "SqlText ''run-1''" 1
        demo_one_attempt
        "\<lparr>max_retries = 3, backoff_seconds = [10, 30, 60], playbook_type = ''retry_pipeline'',
          description = ''Gateway timeout - retry with exponential backoff''\<rparr>"
        demo_env "''ADF-1''" "''GatewayTimeout''" "''http://playbooks/retry''"]
  by (simp add: RETRY_ELIGIBLE_ERRORS_def PLAYBOOK_ENV_VARS_def get_playbook_url_def
        demo_env_def demo_one_attempt_def demo_three_attempts_def demo_short_schedule_def
        demo_attempted_row_def dict_get_def col_def)

text \<open>
  The claim as stated fails where the run id is empty: the ledger holds one
  \<open>Auto-Remediation Attempted\<close> row for the empty run id, so the count from prior entries
  is 1 and the schedule entry for it is 30, but the query is skipped for a falsy run id
  and the evaluation waits 10 seconds.
\<close>

theorem backoff_delay_counterexample:
  "map_of RETRY_ELIGIBLE_ERRORS ''GatewayTimeout'' =
     Some \<lparr>max_retries = 3, backoff_seconds = [10, 30, 60], playbook_type = ''retry_pipeline'',
           description = ''Gateway timeout - retry with exponential backoff''\<rparr>
   \<and> length (filter (\<lambda>a. col a ''run_id'' = SqlText ''''
                \<and> col a ''action'' = SqlText ''Auto-Remediation Attempted'')
        (audit_trail demo_one_attempt_empty_run)) = 1
   \<and> [10, 30, 60] ! min 1 (length [10, 30, 60 :: nat] - 1) = (30 :: nat)
   \<and> hd (effects (snd (attempt_auto_remediation demo_env demo_one_attempt_empty_run ''ADF-1''
        ''GatewayTimeout'' [(''run_id'', JStr '''')]))) = Sleep 10"
  by code_simp

text \<open>
  C3, as the code has it. For an error kind \<open>k\<close> of the eligibility table with
  \<open>max_retries c\<close> and a run id that is present (truthy) and can be stored: a ledger that
  holds at most \<open>max_retries c\<close> \<open>Auto-Remediation Attempted\<close> rows for the run id still
  does so after any number of evaluations, each of which is either of kind \<open>k\<close> for that
  run id or has a run id that is not stored as the same value; and when the ceiling is
  reached and the playbook URL of the kind is configured, the evaluation returns \<open>False\<close>
  and appends exactly one row, the \<open>Auto-Remediation Max Retries Reached\<close> one.
\<close>

theorem attempted_entries_bounded_by_max_retries:
  assumes "map_of RETRY_ELIGIBLE_ERRORS k = Some c"
    and "truthy run_id"
    and "bind_param (Py run_id) = Inr x"
  shows "(length (filter (\<lambda>a. col a ''run_id'' = x
              \<and> col a ''action'' = SqlText ''Auto-Remediation Attempted'') (audit_trail w))
            \<le> max_retries c
          \<and> (\<forall>(E, tid, k', md) \<in> set es.
                (k' = k \<and> dict_get md ''run_id'' = run_id)
                \<or> bind_param (Py (dict_get md ''run_id'')) \<noteq> Inr x)
          \<longrightarrow> length (filter (\<lambda>a. col a ''run_id'' = x
                   \<and> col a ''action'' = SqlText ''Auto-Remediation Attempted'')
                 (audit_trail (evaluations w es))) \<le> max_retries c)
       \<and> (max_retries c \<le> length (filter (\<lambda>a. col a ''run_id'' = x
              \<and> col a ''action'' = SqlText ''Auto-Remediation Attempted'') (audit_trail w))
            \<and> dict_get metadata ''run_id'' = run_id
            \<and> get_playbook_url E k = Some url \<and> url \<noteq> [] \<longrightarrow>
            (\<exists>r. attempt_auto_remediation E w tid k metadata =
                   (Inr False, w\<lparr>audit_trail := audit_trail w @ [r]\<rparr>)
                 \<and> col r ''action'' = SqlText ''Auto-Remediation Max Retries Reached''
                 \<and> col r ''run_id'' = x \<and> col r ''ticket_id'' = SqlText tid))"
proof -
  have x: "x \<noteq> SqlNull" using assms(2,3) by (rule truthy_bind_not_null)
  show ?thesis
  proof (intro conjI impI)
    assume a: "length (filter (\<lambda>a. col a ''run_id'' = x
              \<and> col a ''action'' = SqlText ''Auto-Remediation Attempted'') (audit_trail w))
            \<le> max_retries c
          \<and> (\<forall>(E, tid, k', md) \<in> set es.
                (k' = k \<and> dict_get md ''run_id'' = run_id)
                \<or> bind_param (Py (dict_get md ''run_id'')) \<noteq> Inr x)"
    then have "length (attempted_rows (evaluations w es) x) \<le> max_retries c"
      by (intro evaluations_bound [OF assms]) (simp_all add: attempted_filter [OF x])
    then show "length (filter (\<lambda>a. col a ''run_id'' = x
                   \<and> col a ''action'' = SqlText ''Auto-Remediation Attempted'')
                 (audit_trail (evaluations w es))) \<le> max_retries c"
      by (simp add: attempted_filter [OF x])
  next
    assume a: "max_retries c \<le> length (filter (\<lambda>a. col a ''run_id'' = x
              \<and> col a ''action'' = SqlText ''Auto-Remediation Attempted'') (audit_trail w))
            \<and> dict_get metadata ''run_id'' = run_id
            \<and> get_playbook_url E k = Some url \<and> url \<noteq> []"
    then show "\<exists>r. attempt_auto_remediation E w tid k metadata =
                   (Inr False, w\<lparr>audit_trail := audit_trail w @ [r]\<rparr>)
                 \<and> col r ''action'' = SqlText ''Auto-Remediation Max Retries Reached''
                 \<and> col r ''run_id'' = x \<and> col r ''ticket_id'' = SqlText tid"
      using ceiling_reached [of k c metadata x w E url tid] assms
      by (simp add: attempted_filter [OF x])
  qed
qed

theorem attempted_entries_bounded_by_max_retries_witness:
  "length (filter (\<lambda>a. col a ''run_id'' = SqlText ''run-1''
        \<and> col a ''action'' = SqlText ''Auto-Remediation Attempted'')
      (audit_trail (evaluations demo_one_attempt
         [(demo_env, ''DBX-1'', ''DatabricksDriverNotResponding'', [(''run_id'', JStr ''run-1'')]),
          (demo_env, ''ADF-7'', ''GatewayTimeout'', [(''run_id'', JStr ''run-7'')]),
          (demo_env, ''DBX-1'', ''DatabricksDriverNotResponding'', [(''run_id'', JStr ''run-1'')])])))
     \<le> 1
   \<and> (\<exists>r. attempt_auto_remediation demo_env demo_one_attempt ''DBX-1''
             ''DatabricksDriverNotResponding'' [(''run_id'', JStr ''run-1'')] =
            (Inr False, demo_one_attempt\<lparr>audit_trail := audit_trail demo_one_attempt @ [r]\<rparr>)
          \<and> col r ''action'' = SqlText ''Auto-Remediation Max Retries Reached''
          \<and> col r ''run_id'' = SqlText ''run-1'' \<and> col r ''ticket_id'' = SqlText ''DBX-1'')"
  using attempted_entries_bounded_by_max_retries
    [of "''DatabricksDriverNotResponding''"
        "\<lparr>max_retries = 1, backoff_seconds = [60], playbook_type = ''restart_cluster'',
          description = ''Driver not responding - restart cluster''\<rparr>"
        "JStr ''run-1''" "SqlText ''run-1''" demo_one_attempt
        "[(demo_env, ''DBX-1'', ''DatabricksDriverNotResponding'', [(''run_id'', JStr ''run-1'')]),
          (demo_env, ''ADF-7'', ''GatewayTimeout'', [(''run_id'', JStr ''run-7'')]),
          (demo_env, ''DBX-1'', ''DatabricksDriverNotResponding'', [(''run_id'', JStr ''run-1'')])]"
        "[(''run_id'', JStr ''run-1'')]" demo_env "''http://playbooks/restart''" "''DBX-1''"]
  by (simp add: RETRY_ELIGIBLE_ERRORS_def PLAYBOOK_ENV_VARS_def get_playbook_url_def
        demo_env_def demo_one_attempt_def demo_attempted_row_def dict_get_def col_def)

text \<open>
  The claim as stated fails in three places. With the playbook URL not configured the
  evaluation stops before the retry ceiling is looked at: the ledger already holds
  \<open>max_retries\<close> attempts, and the row written is \<open>Auto-Remediation Skipped\<close>. An empty
  run id is not null, yet it switches the ceiling off: a second
  \<open>Auto-Remediation Attempted\<close> row is written where \<open>max_retries\<close> is 1. And the ceiling
  looked at is the one of the kind being evaluated: an evaluation of \<open>GatewayTimeout\<close>,
  whose ceiling is 3, writes a second row for a run id for which the kind with ceiling 1
  has already used its attempt.
\<close>

theorem max_retries_entry_counterexample:
  "map_of RETRY_ELIGIBLE_ERRORS ''DatabricksDriverNotResponding'' =
     Some \<lparr>max_retries = 1, backoff_seconds = [60], playbook_type = ''restart_cluster'',
           description = ''Driver not responding - restart cluster''\<rparr>
   \<and> count_attempted demo_one_attempt (JStr ''run-1'') = Inr 1
   \<and> length (audit_trail (snd (attempt_auto_remediation demo_env_unconfigured demo_one_attempt
         ''DBX-1'' ''DatabricksDriverNotResponding'' [(''run_id'', JStr ''run-1'')]))) = 2
   \<and> col (last (audit_trail (snd (attempt_auto_remediation demo_env_unconfigured
         demo_one_attempt ''DBX-1'' ''DatabricksDriverNotResponding''
         [(''run_id'', JStr ''run-1'')])))) ''action'' = SqlText ''Auto-Remediation Skipped''
   \<and> count_attempted demo_one_attempt_empty_run (JStr '''') = Inr 1
   \<and> count_attempted (snd (attempt_auto_remediation demo_env demo_one_attempt_empty_run
         ''DBX-1'' ''DatabricksDriverNotResponding'' [(''run_id'', JStr '''')])) (JStr '''')
       = Inr 2
   \<and> count_attempted (evaluations demo_one_attempt
         [(demo_env, ''ADF-1'', ''GatewayTimeout'', [(''run_id'', JStr ''run-1'')])])
         (JStr ''run-1'') = Inr 2"
  by code_simp

section \<open>Claims about the classifier\<close>

lemma lower_Medium: "py_lower ''Medium'' = ''medium''"
  by (simp add: py_lower_def py_lower_char_def upper_chars_def lower_chars_def)

lemma derive_Medium: "derive_priority (JStr ''Medium'') = Inr ''P3''"
  by (simp add: lower_Medium priority_table_def)

lemma derive_falsy: "\<not> truthy v \<Longrightarrow> derive_priority v = Inr ''P3''"
  by (cases v) (simp_all add: py_lower_def priority_table_def)

lemma map_of_setdefault:
  "map_of (setdefault d k v) k' =
     (if k' = k then (case map_of d k of None \<Rightarrow> Some v | Some x \<Rightarrow> Some x) else map_of d k')"
  by (auto simp: setdefault_def map_add_def split: option.splits)

lemma derive_default:
  "derive_priority (case map_of d ''severity'' of None \<Rightarrow> JStr ''Medium'' | Some v \<Rightarrow> v) =
   derive_priority (dict_get d ''severity'')"
  by (simp add: dict_get_def derive_Medium derive_falsy del: derive_priority.simps split: option.splits)

lemma classification_priority:
  assumes "generate_rca_and_recs E desc src = Inr rca"
  shows "\<exists>sev pri. severity_and_priority rca = Inr (sev, pri)
     \<and> (\<forall>d v. call_ai_for_rca E desc src = JObj d \<and> d \<noteq> [] \<and> map_of d ''priority'' = Some v
            \<longrightarrow> pri = v)
     \<and> (\<not> truthy (call_ai_for_rca E desc src)
          \<or> (\<exists>d. call_ai_for_rca E desc src = JObj d \<and> map_of d ''priority'' = None)
         \<longrightarrow> (\<exists>p. derive_priority sev = Inr p \<and> pri = JStr p))"
proof (cases "truthy (call_ai_for_rca E desc src)")
  case False
  then have rca: "rca = fallback_rca desc src"
    using assms by (simp add: generate_rca_and_recs_def Let_def)
  have "severity_and_priority rca = Inr (JStr ''Medium'', JStr ''P3'')"
    unfolding rca by (simp add: severity_and_priority_def fallback_rca_def Let_def derive_Medium del: derive_priority.simps)
  then show ?thesis using False by (auto simp: derive_Medium simp del: derive_priority.simps)
next
  case True
  then obtain d p where ai: "call_ai_for_rca E desc src = JObj d"
    and p: "derive_priority (dict_get d ''severity'') = Inr p"
    and rca: "rca = JObj (setdefault d ''priority'' (JStr p))"
    using assms
    by (auto simp: generate_rca_and_recs_def Let_def bindE_Inr_iff split: json.splits)
  let ?sev = "case map_of d ''severity'' of None \<Rightarrow> JStr ''Medium'' | Some v \<Rightarrow> v"
  let ?pri = "case map_of d ''priority'' of None \<Rightarrow> JStr p | Some v \<Rightarrow> v"
  have sp: "severity_and_priority rca = Inr (?sev, ?pri)"
    unfolding rca severity_and_priority_def
    using p by (simp add: map_of_setdefault derive_default del: derive_priority.simps split: option.splits)
  show ?thesis
    using sp ai p True by (auto simp: derive_default simp del: derive_priority.simps)
qed

text \<open>
  C5, as the code has it. Whatever \<open>generate_rca_and_recs\<close> returns, the ticket gets a
  severity and a priority. A priority that the AI reply carries is kept as it is; when the
  reply has no \<open>priority\<close> key, and when the fallback is used, the priority is
  \<open>derive_priority\<close> of the severity, which is the fixed table read case-insensitively:
  Critical to P1, High to P2, Medium to P3, Low to P4, anything else (also a missing
  severity) to P3.
\<close>

theorem priority_follows_severity_unless_ai_sets_it:
  assumes "generate_rca_and_recs E desc src = Inr rca"
  shows "(\<exists>sev pri. severity_and_priority rca = Inr (sev, pri)
     \<and> (\<forall>d v. call_ai_for_rca E desc src = JObj d \<and> d \<noteq> [] \<and> map_of d ''priority'' = Some v
            \<longrightarrow> pri = v)
     \<and> (\<not> truthy (call_ai_for_rca E desc src)
          \<or> (\<exists>d. call_ai_for_rca E desc src = JObj d \<and> map_of d ''priority'' = None)
         \<longrightarrow> (\<exists>p. derive_priority sev = Inr p \<and> pri = JStr p)))
   \<and> derive_priority (JStr s) =
        Inr (if py_lower s = ''critical'' then ''P1'' else if py_lower s = ''high'' then ''P2''
             else if py_lower s = ''medium'' then ''P3'' else if py_lower s = ''low'' then ''P4''
             else ''P3'')
   \<and> (\<not> truthy v \<longrightarrow> derive_priority v = Inr ''P3'')"
  using classification_priority [OF assms] derive_falsy [of v]
  by (simp add: priority_table_def)

theorem priority_follows_severity_unless_ai_sets_it_witness:
  "(\<exists>sev pri. severity_and_priority (fallback_rca (JStr ''pipeline failed'') ''adf'') = Inr (sev, pri)
      \<and> (\<exists>p. derive_priority sev = Inr p \<and> pri = JStr p))
   \<and> derive_priority (JStr ''Critical'') = Inr ''P1''
   \<and> derive_priority JNull = Inr ''P3''"
  using priority_follows_severity_unless_ai_sets_it
    [of demo_ingest_env "JStr ''pipeline failed''" "''adf''"
        "fallback_rca (JStr ''pipeline failed'') ''adf''" "''Critical''" JNull]
  by (simp add: generate_rca_and_recs_def demo_ingest_env_def py_lower_def py_lower_char_def
        upper_chars_def lower_chars_def)

text \<open>
  The claim as stated fails: \<open>setdefault\<close> does not override. An AI reply with
  severity Critical and priority P4 gives a ticket of priority P4, where the table says P1.
\<close>

theorem ai_priority_kept_counterexample:
  "bindE (generate_rca_and_recs demo_ingest_env_ai (JStr ''pipeline failed'') ''adf'')
     severity_and_priority = Inr (JStr ''Critical'', JStr ''P4'')
   \<and> derive_priority (JStr ''Critical'') = Inr ''P1''"
  by code_simp

lemma provider_fallback_fields:
  "fallback_fields (provider_fallback_rca msg reason) =
     (case provider_fallback_kind msg of
        (k, a, s) \<Rightarrow> (Inr (JStr k), Inr (JBool a), Inr (JStr s)))"
  by (simp add: fallback_fields_def provider_fallback_rca_def py_get_def split: prod.splits)

text \<open>
  C6, as the code has it. When the provider fails, \<open>generate_rca_and_recs\<close> of
  ai\_provider.py classifies by the keyword scan over the lower-cased text, in this order:
  \<open>timeout\<close> or \<open>timed out\<close> (GatewayTimeout when the text also has \<open>gateway\<close>,
  DatabricksTimeoutError otherwise; Medium), \<open>connection\<close> with \<open>failed\<close> (Medium),
  \<open>throttl\<close> (Low), \<open>cluster\<close> (High), \<open>library\<close> or \<open>package\<close> (Medium), each
  with \<open>auto_heal_possible\<close> true; anything else is \<open>Unknown\<close>, Medium, not
  auto-healable. The fallback of main.py, which the ingestion endpoints use, does not look
  at the text: it is always \<open>UnknownError\<close>, Medium, not auto-healable.
\<close>

theorem fallback_keyword_scan:
  "(let t = py_lower msg;
        f = fallback_fields (provider_generate_rca_and_recs (Failed reason) msg);
        timeout = (py_in ''timeout'' t \<or> py_in ''timed out'' t);
        connection = (py_in ''connection'' t \<and> py_in ''failed'' t);
        throttle = py_in ''throttl'' t;
        cluster = py_in ''cluster'' t;
        library = (py_in ''library'' t \<or> py_in ''package'' t)
    in (timeout \<longrightarrow>
          f = (Inr (JStr (if py_in ''gateway'' t then ''GatewayTimeout''
                          else ''DatabricksTimeoutError'')),
               Inr (JBool True), Inr (JStr ''Medium'')))
     \<and> (\<not> timeout \<and> connection \<longrightarrow>
          f = (Inr (JStr ''HttpConnectionFailed''), Inr (JBool True), Inr (JStr ''Medium'')))
     \<and> (\<not> timeout \<and> \<not> connection \<and> throttle \<longrightarrow>
          f = (Inr (JStr ''ThrottlingError''), Inr (JBool True), Inr (JStr ''Low'')))
     \<and> (\<not> timeout \<and> \<not> connection \<and> \<not> throttle \<and> cluster \<longrightarrow>
          f = (Inr (JStr ''DatabricksClusterStartFailure''), Inr (JBool True), Inr (JStr ''High'')))
     \<and> (\<not> timeout \<and> \<not> connection \<and> \<not> throttle \<and> \<not> cluster \<and> library \<longrightarrow>
          f = (Inr (JStr ''DatabricksLibraryInstallationError''), Inr (JBool True),
               Inr (JStr ''Medium'')))
     \<and> (\<not> timeout \<and> \<not> connection \<and> \<not> throttle \<and> \<not> cluster \<and> \<not> library \<longrightarrow>
          f = (Inr (JStr ''Unknown''), Inr (JBool False), Inr (JStr ''Medium''))))
   \<and> (\<not> truthy (call_ai_for_rca E desc src) \<longrightarrow>
        generate_rca_and_recs E desc src = Inr (fallback_rca desc src)
        \<and> fallback_fields (fallback_rca desc src) =
            (Inr (JStr ''UnknownError''), Inr (JBool False), Inr (JStr ''Medium'')))"
proof (rule conjI)
  show "\<not> truthy (call_ai_for_rca E desc src) \<longrightarrow>
        generate_rca_and_recs E desc src = Inr (fallback_rca desc src)
        \<and> fallback_fields (fallback_rca desc src) =
            (Inr (JStr ''UnknownError''), Inr (JBool False), Inr (JStr ''Medium''))"
    by (simp add: generate_rca_and_recs_def fallback_fields_def fallback_rca_def py_get_def)
qed (simp add: Let_def provider_generate_rca_and_recs_def provider_fallback_fields
       provider_fallback_kind_def)

lemmas eval_text = py_in_def py_lower_def py_lower_char_def upper_chars_def lower_chars_def
  sublist_Cons_right

theorem fallback_keyword_scan_witness:
  "fallback_fields (provider_generate_rca_and_recs (Failed ''no key'') ''Gateway Timeout after 30s'')
     = (Inr (JStr ''GatewayTimeout''), Inr (JBool True), Inr (JStr ''Medium''))
   \<and> fallback_fields (provider_generate_rca_and_recs (Failed ''no key'') ''Connection to host failed'')
     = (Inr (JStr ''HttpConnectionFailed''), Inr (JBool True), Inr (JStr ''Medium''))
   \<and> fallback_fields (provider_generate_rca_and_recs (Failed ''no key'') ''Request was throttled'')
     = (Inr (JStr ''ThrottlingError''), Inr (JBool True), Inr (JStr ''Low''))
   \<and> fallback_fields (provider_generate_rca_and_recs (Failed ''no key'') ''Cluster terminated'')
     = (Inr (JStr ''DatabricksClusterStartFailure''), Inr (JBool True), Inr (JStr ''High''))
   \<and> fallback_fields (provider_generate_rca_and_recs (Failed ''no key'') ''Package not found'')
     = (Inr (JStr ''DatabricksLibraryInstallationError''), Inr (JBool True), Inr (JStr ''Medium''))
   \<and> fallback_fields (provider_generate_rca_and_recs (Failed ''no key'') ''Disk full'')
     = (Inr (JStr ''Unknown''), Inr (JBool False), Inr (JStr ''Medium''))
   \<and> generate_rca_and_recs demo_ingest_env (JStr ''Gateway Timeout after 30s'') ''adf''
     = Inr (fallback_rca (JStr ''Gateway Timeout after 30s'') ''adf'')"
  using
    fallback_keyword_scan [of "''Gateway Timeout after 30s''" "''no key''" demo_ingest_env
       "JStr ''Gateway Timeout after 30s''" "''adf''"]
    fallback_keyword_scan [of "''Connection to host failed''" "''no key''" demo_ingest_env
       "JStr ''Gateway Timeout after 30s''" "''adf''"]
    fallback_keyword_scan [of "''Request was throttled''" "''no key''" demo_ingest_env
       "JStr ''Gateway Timeout after 30s''" "''adf''"]
    fallback_keyword_scan [of "''Cluster terminated''" "''no key''" demo_ingest_env
       "JStr ''Gateway Timeout after 30s''" "''adf''"]
    fallback_keyword_scan [of "''Package not found''" "''no key''" demo_ingest_env
       "JStr ''Gateway Timeout after 30s''" "''adf''"]
    fallback_keyword_scan [of "''Disk full''" "''no key''" demo_ingest_env
       "JStr ''Gateway Timeout after 30s''" "''adf''"]
  by (simp add: Let_def eval_text demo_ingest_env_def)

text \<open>
  The claim as stated fails: a throttling text is classified Low and a cluster text High,
  not Medium; and on the ingestion path of main.py a timeout text is not scanned at all.
\<close>

theorem fallback_severity_counterexample:
  "fallback_fields (provider_generate_rca_and_recs (Failed ''no key'') ''Request was throttled'')
     = (Inr (JStr ''ThrottlingError''), Inr (JBool True), Inr (JStr ''Low''))
   \<and> fallback_fields (provider_generate_rca_and_recs (Failed ''no key'') ''Cluster terminated'')
     = (Inr (JStr ''DatabricksClusterStartFailure''), Inr (JBool True), Inr (JStr ''High''))
   \<and> generate_rca_and_recs demo_ingest_env
        (JStr ''GatewayTimeout: Connection timeout after 30 seconds'') ''adf''
     = Inr (fallback_rca (JStr ''GatewayTimeout: Connection timeout after 30 seconds'') ''adf'')
   \<and> fallback_fields (fallback_rca (JStr ''GatewayTimeout: Connection timeout after 30 seconds'') ''adf'')
     = (Inr (JStr ''UnknownError''), Inr (JBool False), Inr (JStr ''Medium''))"
  by code_simp
section \<open>Claims about the event normalizer\<close>



lemma wide_append [simp]: "wide (a @ b) = wide a @ wide b"
  by (simp add: wide_def)

lemma narrow_wide [simp]: "narrow (wide s) = s"
  by (induction s) (simp_all add: wide_def)


lemma ci_prefix_length: "ci_prefix k t \<Longrightarrow> length k \<le> length t"
proof (induction k arbitrary: t)
  case Nil
  then show ?case by simp
next
  case (Cons p k)
  then show ?case by (cases t) simp_all
qed




























lemma first_obj:
  assumes "a = JNull \<or> (\<exists>d. a = JObj d \<and> well_shaped (JObj d))"
    and "\<exists>d. py_first (b # bs) = JObj d \<and> well_shaped (JObj d)"
  shows "\<exists>d. py_first (a # b # bs) = JObj d \<and> well_shaped (JObj d)"
  using assms by auto


lemma members_obj: "py_first vs = JObj d \<Longrightarrow> JObj (members (py_first vs)) = py_first vs"
  by simp


lemma py_dict_values:
  "py_dict (map (\<lambda>(k, v). (k, Inr v)) kvs) = Inr kvs"
  by (induction kvs) auto


















section \<open>The ingestion endpoints and remediation\<close>

text \<open>
  Every step of the two handlers leaves \<open>remediation_trace\<close> as it was: the audit rows
  they write carry other actions, and the effects they have are not waits or playbook
  calls.
\<close>

lemma trace_log_audit:
  assumes "kwarg kw ''action'' = Py (JStr a)" and "a \<noteq> ''Auto-Remediation Attempted''"
  shows "remediation_trace (log_audit w kw) = remediation_trace w"
proof -
  from log_audit_cases [of w kw] show ?thesis
  proof
    assume "log_audit w kw = w"
    then show ?thesis by simp
  next
    assume "\<exists>r. bind_all (map (\<lambda>c. (c, kwarg kw c)) audit_columns) = Inr r \<and>
        log_audit w kw = w\<lparr>audit_trail := audit_trail w @ [r]\<rparr>"
    then obtain r where b: "bind_all (map (\<lambda>c. (c, kwarg kw c)) audit_columns) = Inr r"
      and l: "log_audit w kw = w\<lparr>audit_trail := audit_trail w @ [r]\<rparr>" by blast
    have "bind_param (kwarg kw ''action'') = Inr (col r ''action'')"
      by (rule audit_row_col [OF b]) (simp add: audit_columns_def)
    then have "col r ''action'' = SqlText a" using assms(1) by simp
    then show ?thesis using l assms(2) by (simp add: remediation_trace_def sql_eq_def)
  qed
qed

lemma trace_emit:
  "\<not> is_remediation_effect e \<Longrightarrow> remediation_trace (emit e w) = remediation_trace w"
  by (simp add: remediation_trace_def emit_def)

lemma trace_tickets [simp]:
  "remediation_trace (w\<lparr>tickets := ts\<rparr>) = remediation_trace w"
  by (simp add: remediation_trace_def)

lemma trace_update_ticket:
  "update_ticket d w c v tid = Inr w' \<Longrightarrow> remediation_trace w' = remediation_trace w"
  by (auto simp: update_ticket_def bindE_Inr_iff split: if_splits)

lemma trace_insert_ticket:
  "insert_ticket d w data = Inr w' \<Longrightarrow> remediation_trace w' = remediation_trace w"
  by (auto simp: insert_ticket_def bindE_Inr_iff split: if_splits)

lemmas trace_audit = trace_log_audit [where a = "''Duplicate Run Detected''"]
  trace_log_audit [where a = "''Blob Payload Saved''"]
  trace_log_audit [where a = "''Blob Upload Failed''"]
  trace_log_audit [where a = "''Ticket Created''"]
  trace_log_audit [where a = "''Logic App Forwarded''"]
  trace_log_audit [where a = "''Jira Ticket Failed''"]
  trace_log_audit [where a = "''Jira Ticket Created''"]
  trace_log_audit [where a = "''Slack Notification Failed''"]
  trace_log_audit [where a = "''Slack Notification Sent''"]

lemma trace_duplicate_check:
  "remediation_trace (snd (duplicate_check E w who p r)) = remediation_trace w"
  by (simp add: duplicate_check_def Let_def trace_audit kwarg_def split: sum.splits option.splits)

lemma trace_blob_step:
  "remediation_trace (snd (blob_step E w tid)) = remediation_trace w"
  by (simp add: blob_step_def upload_payload_to_blob_def trace_audit trace_emit kwarg_def
        split: sum.splits)

lemma trace_insert_or_race:
  "remediation_trace (snd (insert_or_race E w r data)) = remediation_trace w"
  by (auto simp: insert_or_race_def Let_def dest: trace_insert_ticket
        split: sum.splits option.splits)

lemma trace_itsm_step:
  "remediation_trace (snd (itsm_step E w tid)) = remediation_trace w"
  by (auto simp: itsm_step_def Let_def trace_audit trace_emit kwarg_def
        dest: trace_update_ticket split: sum.splits)

lemma trace_post_slack:
  "remediation_trace (snd (post_slack_notification E w tid)) = remediation_trace w"
proof (cases "slack_post E tid")
  case (Inl e)
  then show ?thesis by (simp add: post_slack_notification_def Let_def)
next
  case (Inr j)
  note j = this
  show ?thesis
  proof (cases "j = JNull")
    case True
    then show ?thesis using j by (simp add: post_slack_notification_def Let_def)
  next
    case False
    let ?w1 = "emit (SlackPost tid) w"
    have w1: "remediation_trace ?w1 = remediation_trace w" by (simp add: trace_emit)
    show ?thesis
    proof (cases "bindE (py_get j ''ts'') (\<lambda>ts. bindE (py_get j ''channel'') (\<lambda>ch. Inr (ts, ch)))")
      case (Inl e)
      then show ?thesis using j False w1 by (simp add: post_slack_notification_def Let_def)
    next
      case (Inr p)
      obtain ts ch where p: "p = (ts, ch)" by (cases p)
      show ?thesis
      proof (cases "truthy ts \<and> truthy ch")
        case False
        then show ?thesis using j \<open>j \<noteq> JNull\<close> w1 Inr p
          by (auto simp: post_slack_notification_def Let_def)
      next
        case True
        show ?thesis
        proof (cases "bindE (update_ticket (DB_TYPE E) ?w1 ''slack_ts'' ts tid)
                        (\<lambda>w2. update_ticket (DB_TYPE E) w2 ''slack_channel'' ch tid)")
          case (Inl e)
          then show ?thesis using j \<open>j \<noteq> JNull\<close> w1 Inr p True
            by (simp add: post_slack_notification_def Let_def)
        next
          case (Inr w3)
          then obtain w2 where a: "update_ticket (DB_TYPE E) ?w1 ''slack_ts'' ts tid = Inr w2"
            and b: "update_ticket (DB_TYPE E) w2 ''slack_channel'' ch tid = Inr w3"
            by (auto simp: bindE_Inr_iff)
          have "remediation_trace w3 = remediation_trace w"
            using trace_update_ticket [OF a] trace_update_ticket [OF b] w1 by simp
          then show ?thesis
            using j \<open>j \<noteq> JNull\<close> \<open>bindE (py_get j ''ts'') _ = Inr p\<close> p True Inr
            by (simp add: post_slack_notification_def Let_def)
        qed
      qed
    qed
  qed
qed


lemma trace_slack_step:
  "remediation_trace (slack_step E w tid p r i) = remediation_trace w"
proof -
  obtain res w1 where a: "post_slack_notification E w tid = (res, w1)"
    by (cases "post_slack_notification E w tid")
  have w1: "remediation_trace w1 = remediation_trace w"
    using trace_post_slack [of E w tid] a by simp
  show ?thesis
  proof (cases res)
    case (Inl e)
    then show ?thesis using a w1 by (simp add: slack_step_def trace_audit kwarg_def)
  next
    case (Inr s)
    then show ?thesis using a w1 by (simp add: slack_step_def trace_audit kwarg_def)
  qed
qed

lemma trace_azure_after_insert:
  "remediation_trace (snd (azure_after_insert E w tid p r rca sev pri ft la pm)) = remediation_trace w"
proof (cases "rca_summary (dict_get rca ''root_cause'')")
  case (Inl e)
  then show ?thesis by (simp add: azure_after_insert_def)
next
  case (Inr summary)
  define w1 where "w1 = log_audit w
                [(''ticket_id'', Py (JStr tid)),
                 (''action'', Py (JStr ''Ticket Created'')),
                 (''pipeline'', Py p),
                 (''run_id'', Py r),
                 (''rca_summary'', Py summary),
                 (''sla_status'', Py (JStr ''Pending'')),
                 (''finops_team'', Py (dict_get ft ''team'')),
                 (''finops_owner'', Py (dict_get ft ''owner'')),
                 (''details'', Py (JStr (''Severity: '' @ pstr E sev @ '', Priority: ''
                     @ pstr E pri @ '', Processing Mode: '' @ pstr E pm)))]"
  define w2 where "w2 = log_audit w1
                [(''ticket_id'', Py (JStr tid)),
                 (''action'', Py (JStr ''Logic App Forwarded'')),
                 (''pipeline'', Py p),
                 (''run_id'', Py r),
                 (''details'', Py (JStr (''Alert forwarded from Logic App (Run: ''
                     @ pstr E la @ '') to FastAPI RCA system'')))]"
  obtain i w3 where i: "itsm_step E w2 tid = (i, w3)" by (cases "itsm_step E w2 tid")
  have t1: "remediation_trace w1 = remediation_trace w"
    unfolding w1_def by (simp add: trace_audit kwarg_def)
  have t2: "remediation_trace w2 = remediation_trace w1"
    unfolding w2_def by (simp add: trace_audit kwarg_def)
  have t3: "remediation_trace w3 = remediation_trace w2"
    using trace_itsm_step [of E w2 tid] i by simp
  have "azure_after_insert E w tid p r rca sev pri ft la pm =
          (Inr NoResponse, slack_step E (emit (Broadcast tid) w3) tid p r i)"
    using Inr i unfolding w1_def w2_def by (simp add: azure_after_insert_def Let_def)
  then show ?thesis using t1 t2 t3 by (simp add: trace_slack_step trace_emit)
qed

lemma trace_databricks_after_insert:
  "remediation_trace (snd (databricks_after_insert E w tid p r rca sev pri ft jid cid)) = remediation_trace w"
proof (cases "rca_summary (dict_get rca ''root_cause'')")
  case (Inl e)
  then show ?thesis by (simp add: databricks_after_insert_def)
next
  case (Inr summary)
  define w1 where "w1 = log_audit w
                [(''ticket_id'', Py (JStr tid)),
                 (''action'', Py (JStr ''Ticket Created'')),
                 (''pipeline'', Py p),
                 (''run_id'', Py r),
                 (''rca_summary'', Py summary),
                 (''sla_status'', Py (JStr ''Pending'')),
                 (''finops_team'', Py (dict_get ft ''team'')),
                 (''finops_owner'', Py (dict_get ft ''owner'')),
                 (''details'', Py (JStr (''Severity: '' @ pstr E sev @ '', Priority: ''
                     @ pstr E pri @ '', Source: Databricks, JobID: '' @ pstr E jid
                     @ '', ClusterID: '' @ pstr E cid)))]"
  obtain i w2 where i: "itsm_step E w1 tid = (i, w2)" by (cases "itsm_step E w1 tid")
  have t1: "remediation_trace w1 = remediation_trace w"
    unfolding w1_def by (simp add: trace_audit kwarg_def)
  have t2: "remediation_trace w2 = remediation_trace w1"
    using trace_itsm_step [of E w1 tid] i by simp
  have "databricks_after_insert E w tid p r rca sev pri ft jid cid =
          (Inr NoResponse, slack_step E (emit (Broadcast tid) w2) tid p r i)"
    using Inr i unfolding w1_def by (simp add: databricks_after_insert_def Let_def)
  then show ?thesis using t1 t2 by (simp add: trace_slack_step trace_emit)
qed

lemma trace_azure_ingest:
  "remediation_trace (snd (azure_ingest E w x)) = remediation_trace w"
proof -
  obtain essentials desc pipeline runid la pm
    where x: "x = (essentials, desc, pipeline, runid, la, pm)" by (cases x)
  obtain d w1 where d: "duplicate_check E w ''Logic App'' pipeline runid = (d, w1)"
    by (cases "duplicate_check E w ''Logic App'' pipeline runid")
  have w1: "remediation_trace w1 = remediation_trace w"
    using trace_duplicate_check [of E w "''Logic App''" pipeline runid] d by simp
  show ?thesis
  proof (cases d)
    case (Inl e)
    then show ?thesis using x d w1 by (simp add: azure_ingest_def)
  next
    case (Inr ob)
    note ob = this
    show ?thesis
    proof (cases ob)
      case (Some dup)
      then show ?thesis using x d w1 ob by (simp add: azure_ingest_def)
    next
      case None
      note none = this
      show ?thesis
      proof (cases "extract_finops_tags pipeline ''adf''")
        case (Inl e)
        then show ?thesis using x d w1 ob none by (simp add: azure_ingest_def)
      next
        case (Inr ft)
        note ft = this
        let ?w2 = "emit (AiCall (pstr E desc) ''adf'') w1"
        have w2: "remediation_trace ?w2 = remediation_trace w" using w1 by (simp add: trace_emit)
        show ?thesis
        proof (cases "classify_ticket E desc ''adf''")
          case (Inl e)
          then show ?thesis using x d w2 ob none ft by (simp add: azure_ingest_def)
        next
          case (Inr c)
          obtain rca sev pri sla where c: "c = (rca, sev, pri, sla)" by (cases c)
          define tid where "tid = ''ADF-'' @ utc_stamp E @ ''-'' @ uuid6 E"
          obtain bu w3 where b: "blob_step E ?w2 tid = (bu, w3)" by (cases "blob_step E ?w2 tid")
          have w3: "remediation_trace w3 = remediation_trace w"
            using trace_blob_step [of E ?w2 tid] b w2 by simp
          let ?data = "ticket_data E tid pipeline runid rca sev pri sla ft bu la pm"
          obtain res w4 where i: "insert_or_race E w3 runid ?data = (res, w4)"
            by (cases "insert_or_race E w3 runid ?data")
          have w4: "remediation_trace w4 = remediation_trace w"
            using trace_insert_or_race [of E w3 runid ?data] i w3 by simp
          have "remediation_trace (snd (case res of
                   Inl e \<Rightarrow> (Inl e, w4)
                 | Inr (Some race) \<Rightarrow> (Inr race, w4)
                 | Inr None \<Rightarrow> azure_after_insert E w4 tid pipeline runid rca sev pri ft la pm))
                = remediation_trace w"
            using w4 by (simp add: trace_azure_after_insert split: sum.splits option.splits)
          then show ?thesis using x d ob none ft Inr c b i
            unfolding azure_ingest_def Let_def tid_def [symmetric] by simp
        qed
      qed
    qed
  qed
qed

lemma trace_azure_monitor:
  "remediation_trace (snd (azure_monitor E w k r)) = remediation_trace w"
  by (simp add: azure_monitor_def trace_azure_ingest split: option.splits sum.splits)

lemma trace_databricks_ingest:
  "remediation_trace (snd (databricks_ingest E w x)) = remediation_trace w"
proof -
  obtain job_name run_id job_id error_message cluster_id
    where x: "x = (job_name, run_id, job_id, error_message, cluster_id)" by (cases x)
  obtain d w1 where d: "duplicate_check E w ''Databricks job'' job_name run_id = (d, w1)"
    by (cases "duplicate_check E w ''Databricks job'' job_name run_id")
  have w1: "remediation_trace w1 = remediation_trace w"
    using trace_duplicate_check [of E w "''Databricks job''" job_name run_id] d by simp
  show ?thesis
  proof (cases d)
    case (Inl e)
    then show ?thesis using x d w1 by (simp add: databricks_ingest_def)
  next
    case (Inr ob)
    note ob = this
    show ?thesis
    proof (cases ob)
      case (Some dup)
      then show ?thesis using x d w1 ob by (simp add: databricks_ingest_def)
    next
      case None
      note none = this
      show ?thesis
      proof (cases "extract_finops_tags job_name ''databricks''")
        case (Inl e)
        then show ?thesis using x d w1 ob none by (simp add: databricks_ingest_def)
      next
        case (Inr ft)
        note ft = this
        let ?w2 = "emit (AiCall (pstr E error_message) ''databricks'') w1"
        have w2: "remediation_trace ?w2 = remediation_trace w" using w1 by (simp add: trace_emit)
        show ?thesis
        proof (cases "classify_ticket E error_message ''databricks''")
          case (Inl e)
          then show ?thesis using x d w2 ob none ft by (simp add: databricks_ingest_def)
        next
          case (Inr c)
          obtain rca sev pri sla where c: "c = (rca, sev, pri, sla)" by (cases c)
          define tid where "tid = ''DBX-'' @ utc_stamp E @ ''-'' @ uuid6 E"
          obtain bu w3 where b: "blob_step E ?w2 tid = (bu, w3)" by (cases "blob_step E ?w2 tid")
          have w3: "remediation_trace w3 = remediation_trace w"
            using trace_blob_step [of E ?w2 tid] b w2 by simp
          let ?data = "ticket_data E tid job_name run_id rca sev pri sla ft bu (JStr ''N/A'')
                         (JStr ''databricks'')"
          obtain res w4 where i: "insert_or_race E w3 run_id ?data = (res, w4)"
            by (cases "insert_or_race E w3 run_id ?data")
          have w4: "remediation_trace w4 = remediation_trace w"
            using trace_insert_or_race [of E w3 run_id ?data] i w3 by simp
          have "remediation_trace (snd (case res of
                   Inl e \<Rightarrow> (Inl e, w4)
                 | Inr (Some race) \<Rightarrow> (Inr race, w4)
                 | Inr None \<Rightarrow> databricks_after_insert E w4 tid job_name run_id rca sev pri ft
                                 job_id cluster_id))
                = remediation_trace w"
            using w4 by (simp add: trace_databricks_after_insert split: sum.splits option.splits)
          then show ?thesis using x d ob none ft Inr c b i
            unfolding databricks_ingest_def Let_def tid_def [symmetric] by simp
        qed
      qed
    qed
  qed
qed

lemma trace_databricks_monitor:
  "remediation_trace (snd (databricks_monitor E w r)) = remediation_trace w"
  by (simp add: databricks_monitor_def trace_databricks_ingest trace_emit
        split: option.splits sum.splits prod.splits)

text \<open>
  C10. Whatever the settings, the body and the state of the store (so also with
  \<open>AUTO_REMEDIATION_ENABLED\<close> set and an error kind that has a playbook), a request to
  \<open>azure_monitor\<close> or to \<open>databricks_monitor\<close> adds no backoff wait, no playbook call
  and no \<open>Auto-Remediation Attempted\<close> row: what \<open>attempt_auto_remediation\<close> and the
  playbook trigger leave behind is the same after the request as before it.
\<close>

theorem ingestion_leaves_no_remediation_trace:
  "remediation_trace (snd (azure_monitor E w x_api_key request_json)) = remediation_trace w \<and>
   remediation_trace (snd (databricks_monitor E w request_json)) = remediation_trace w"
  by (simp add: trace_azure_monitor trace_databricks_monitor)

theorem ingestion_leaves_no_remediation_trace_witness:
  "AUTO_REMEDIATION_ENABLED demo_ingest_env_ai \<and>
   map_of (PLAYBOOK_REGISTRY demo_ingest_env_ai) ''GatewayTimeout'' = Some (Some ''http://playbooks/retry'') \<and>
   remediation_trace (snd (azure_monitor demo_ingest_env_ai empty_world (Some ''secret'')
      (Some demo_body))) = ([], []) \<and>
   remediation_trace (snd (databricks_monitor demo_ingest_env_ai empty_world (Some demo_body)))
      = ([], [])"
  using ingestion_leaves_no_remediation_trace
          [of demo_ingest_env_ai empty_world "Some ''secret''" "Some demo_body"]
  by (simp add: remediation_trace_def empty_world_def demo_ingest_env_ai_def demo_ingest_env_def)

section \<open>After the insert\<close>

lemma col_set_col: "c \<noteq> k \<Longrightarrow> col (set_col c v t) k = col t k"
  by (induction t) (auto simp: col_def)

lemma ids_log_audit [simp]: "ticket_ids (log_audit w kw) = ticket_ids w"
  by (simp add: ticket_ids_def)

lemma ids_emit [simp]: "ticket_ids (emit e w) = ticket_ids w"
  by (simp add: ticket_ids_def emit_def)

lemma ids_update_ticket:
  "update_ticket d w c v tid = Inr w' \<Longrightarrow> c \<noteq> ''id'' \<Longrightarrow> ticket_ids w' = ticket_ids w"
  by (auto simp: update_ticket_def bindE_Inr_iff ticket_ids_def col_set_col split: if_splits)

lemma ids_itsm_step: "ticket_ids (snd (itsm_step E w tid)) = ticket_ids w"
proof (cases "ITSM_TOOL E = ''jira''")
  case False
  then show ?thesis by (simp add: itsm_step_def)
next
  case True
  show ?thesis
  proof (cases "create_jira_ticket E tid")
    case (Inl e)
    then show ?thesis using True by (simp add: itsm_step_def Let_def)
  next
    case (Inr i)
    show ?thesis
    proof (cases "truthy i")
      case False
      then show ?thesis using True Inr by (simp add: itsm_step_def Let_def)
    next
      case t: True
      show ?thesis
      proof (cases "update_ticket (DB_TYPE E) (emit (JiraPost tid) w) ''itsm_ticket_id'' i tid")
        case (Inl e)
        then show ?thesis using True Inr t by (simp add: itsm_step_def Let_def)
      next
        case u: (Inr w2)
        have "ticket_ids w2 = ticket_ids w" using ids_update_ticket [OF u] by simp
        then show ?thesis using True Inr t u by (simp add: itsm_step_def Let_def)
      qed
    qed
  qed
qed

lemma ids_post_slack:
  "ticket_ids (snd (post_slack_notification E w tid)) = ticket_ids w"
proof (cases "slack_post E tid")
  case (Inl e)
  then show ?thesis by (simp add: post_slack_notification_def)
next
  case (Inr j)
  note j = this
  show ?thesis
  proof (cases "j = JNull")
    case True
    then show ?thesis using j by (simp add: post_slack_notification_def)
  next
    case False
    let ?w1 = "emit (SlackPost tid) w"
    show ?thesis
    proof (cases "bindE (py_get j ''ts'') (\<lambda>ts. bindE (py_get j ''channel'') (\<lambda>ch. Inr (ts, ch)))")
      case (Inl e)
      then show ?thesis using j False by (simp add: post_slack_notification_def Let_def)
    next
      case (Inr p)
      obtain ts ch where p: "p = (ts, ch)" by (cases p)
      show ?thesis
      proof (cases "truthy ts \<and> truthy ch")
        case False
        then show ?thesis using j \<open>j \<noteq> JNull\<close> Inr p
          by (auto simp: post_slack_notification_def Let_def)
      next
        case True
        show ?thesis
        proof (cases "bindE (update_ticket (DB_TYPE E) ?w1 ''slack_ts'' ts tid)
                        (\<lambda>w2. update_ticket (DB_TYPE E) w2 ''slack_channel'' ch tid)")
          case (Inl e)
          then show ?thesis using j \<open>j \<noteq> JNull\<close> Inr p True
            by (simp add: post_slack_notification_def Let_def)
        next
          case (Inr w3)
          then obtain w2 where a: "update_ticket (DB_TYPE E) ?w1 ''slack_ts'' ts tid = Inr w2"
            and b: "update_ticket (DB_TYPE E) w2 ''slack_channel'' ch tid = Inr w3"
            by (auto simp: bindE_Inr_iff)
          have "ticket_ids w3 = ticket_ids w"
            using ids_update_ticket [OF a] ids_update_ticket [OF b] by simp
          then show ?thesis
            using j \<open>j \<noteq> JNull\<close> \<open>bindE (py_get j ''ts'') _ = Inr p\<close> p True Inr
            by (simp add: post_slack_notification_def Let_def)
        qed
      qed
    qed
  qed
qed

lemma ids_slack_step: "ticket_ids (slack_step E w tid p r i) = ticket_ids w"
proof -
  obtain res w1 where a: "post_slack_notification E w tid = (res, w1)"
    by (cases "post_slack_notification E w tid")
  have w1: "ticket_ids w1 = ticket_ids w"
    using ids_post_slack [of E w tid] a by simp
  show ?thesis using a w1 by (cases res) (simp_all add: slack_step_def)
qed

lemma azure_after_insert_result:
  "azure_after_insert E w tid p r rca sev pri ft la pm =
     (case rca_summary (dict_get rca ''root_cause'') of
        Inl e \<Rightarrow> (Inl e, w)
      | Inr s \<Rightarrow> (Inr NoResponse, snd (azure_after_insert E w tid p r rca sev pri ft la pm)))"
  by (simp add: azure_after_insert_def Let_def split: sum.splits prod.splits)

lemma databricks_after_insert_result:
  "databricks_after_insert E w tid p r rca sev pri ft jid cid =
     (case rca_summary (dict_get rca ''root_cause'') of
        Inl e \<Rightarrow> (Inl e, w)
      | Inr s \<Rightarrow> (Inr NoResponse, snd (databricks_after_insert E w tid p r rca sev pri ft jid cid)))"
  by (simp add: databricks_after_insert_def Let_def split: sum.splits prod.splits)

lemma ids_azure_after_insert:
  "ticket_ids (snd (azure_after_insert E w tid p r rca sev pri ft la pm)) = ticket_ids w"
proof (cases "rca_summary (dict_get rca ''root_cause'')")
  case (Inl e)
  then show ?thesis by (simp add: azure_after_insert_def)
next
  case (Inr summary)
  show ?thesis using Inr
    by (simp add: azure_after_insert_def Let_def ids_slack_step split: prod.splits)
       (metis ids_itsm_step ids_log_audit snd_conv)
qed

lemma ids_databricks_after_insert:
  "ticket_ids (snd (databricks_after_insert E w tid p r rca sev pri ft jid cid)) = ticket_ids w"
proof (cases "rca_summary (dict_get rca ''root_cause'')")
  case (Inl e)
  then show ?thesis by (simp add: databricks_after_insert_def)
next
  case (Inr summary)
  show ?thesis using Inr
    by (simp add: databricks_after_insert_def Let_def ids_slack_step split: prod.splits)
       (metis ids_itsm_step ids_log_audit snd_conv)
qed

text \<open>
  C9, as the code has it. Once the ticket row is inserted, neither handler returns a
  response: the final \<open>return JSONResponse({"status": "Ticket Created", ...})\<close> is
  commented out, so the outcome is no response, or the exception raised when the root
  cause cannot be sliced. The ticket rows are kept in both cases, also when the Jira or the
  Slack step fails.
\<close>

theorem created_ticket_kept_but_not_reported:
  "fst (azure_after_insert E w tid pipeline runid rca severity priority finops_tags
          logic_app_run_id processing_mode) =
     (case rca_summary (dict_get rca ''root_cause'') of
        Inl e \<Rightarrow> Inl e | Inr summary \<Rightarrow> Inr NoResponse) \<and>
   ticket_ids (snd (azure_after_insert E w tid pipeline runid rca severity priority finops_tags
          logic_app_run_id processing_mode)) = ticket_ids w \<and>
   fst (databricks_after_insert E w tid pipeline runid rca severity priority finops_tags
          job_id cluster_id) =
     (case rca_summary (dict_get rca ''root_cause'') of
        Inl e \<Rightarrow> Inl e | Inr summary \<Rightarrow> Inr NoResponse) \<and>
   ticket_ids (snd (databricks_after_insert E w tid pipeline runid rca severity priority
          finops_tags job_id cluster_id)) = ticket_ids w"
proof (intro conjI)
  show "fst (azure_after_insert E w tid pipeline runid rca severity priority finops_tags
          logic_app_run_id processing_mode) =
     (case rca_summary (dict_get rca ''root_cause'') of
        Inl e \<Rightarrow> Inl e | Inr summary \<Rightarrow> Inr NoResponse)"
    by (subst azure_after_insert_result) (simp split: sum.splits)
  show "fst (databricks_after_insert E w tid pipeline runid rca severity priority finops_tags
          job_id cluster_id) =
     (case rca_summary (dict_get rca ''root_cause'') of
        Inl e \<Rightarrow> Inl e | Inr summary \<Rightarrow> Inr NoResponse)"
    by (subst databricks_after_insert_result) (simp split: sum.splits)
qed (rule ids_azure_after_insert ids_databricks_after_insert)+

theorem created_ticket_kept_but_not_reported_witness:
  "fst (azure_after_insert demo_ingest_env_failing (demo_store [demo_ticket ''ADF-1'' ''run-1''])
          ''ADF-1'' (JStr ''CopyPipeline'') (JStr ''run-1'') [(''root_cause'', JStr ''Timeout'')]
          (JStr ''Medium'') (JStr ''P3'') [] (JStr ''N/A'') (JStr ''Single'')) = Inr NoResponse \<and>
   ticket_ids (snd (azure_after_insert demo_ingest_env_failing
          (demo_store [demo_ticket ''ADF-1'' ''run-1''])
          ''ADF-1'' (JStr ''CopyPipeline'') (JStr ''run-1'') [(''root_cause'', JStr ''Timeout'')]
          (JStr ''Medium'') (JStr ''P3'') [] (JStr ''N/A'') (JStr ''Single''))) = [SqlText ''ADF-1''] \<and>
   fst (databricks_after_insert demo_ingest_env_failing (demo_store [demo_ticket ''DBX-1'' ''77''])
          ''DBX-1'' (JStr ''nightly'') (JNum 77) [(''root_cause'', JNum 5)]
          (JStr ''Medium'') (JStr ''P3'') [] (JStr ''N/A'') (JStr ''N/A''))
     = Inl (TypeError '''int' object is not subscriptable'') \<and>
   ticket_ids (snd (databricks_after_insert demo_ingest_env_failing
          (demo_store [demo_ticket ''DBX-1'' ''77''])
          ''DBX-1'' (JStr ''nightly'') (JNum 77) [(''root_cause'', JNum 5)]
          (JStr ''Medium'') (JStr ''P3'') [] (JStr ''N/A'') (JStr ''N/A''))) = [SqlText ''DBX-1'']"
  using created_ticket_kept_but_not_reported
          [of demo_ingest_env_failing "demo_store [demo_ticket ''ADF-1'' ''run-1'']" "''ADF-1''"
              "JStr ''CopyPipeline''" "JStr ''run-1''" "[(''root_cause'', JStr ''Timeout'')]"
              "JStr ''Medium''" "JStr ''P3''" "[]" "JStr ''N/A''" "JStr ''Single''"]
        created_ticket_kept_but_not_reported
          [of demo_ingest_env_failing "demo_store [demo_ticket ''DBX-1'' ''77'']" "''DBX-1''"
              "JStr ''nightly''" "JNum 77" "[(''root_cause'', JNum 5)]"
              "JStr ''Medium''" "JStr ''P3''" "[]" _ _ "JStr ''N/A''" "JStr ''N/A''"]
  by (simp add: dict_get_def ticket_ids_def demo_store_def demo_ticket_def col_def)

section \<open>The insert and its handler\<close>






section \<open>The endpoints on concrete requests\<close>

lemma classify_fallback:
  "call_ai_for_rca E desc st = JNull \<Longrightarrow>
   classify_ticket E desc st =
     Inr (case fallback_rca desc st of JObj d \<Rightarrow> d | v \<Rightarrow> [], JStr ''Medium'', JStr ''P3'', 7200)"
  by (simp add: classify_ticket_def generate_rca_and_recs_def fallback_rca_def
        severity_and_priority_def Let_def priority_table_def eval_text)

lemma show_7200: "show_int 7200 = ''7200''"
  by (simp add: show_int_def show_nat.simps)


lemma demo_env_race_sel:
  "RCA_API_KEY demo_ingest_env_race = ''secret''"
  "AZURE_BLOB_ENABLED demo_ingest_env_race = False"
  "ITSM_TOOL demo_ingest_env_race = ''none''"
  "DB_TYPE demo_ingest_env_race = Sqlite"
  "str_of_container demo_ingest_env_race = (\<lambda>v. ''<repr>'')"
  "json_dumps demo_ingest_env_race = (\<lambda>v. ''<json>'')"
  "call_ai_for_rca demo_ingest_env_race = (\<lambda>desc source_type. JNull)"
  "utc_stamp demo_ingest_env_race = ''20250101T000000''"
  "uuid6 demo_ingest_env_race = ''abc123''"
  "utc_iso demo_ingest_env_race = ''2025-01-01T00:00:00+00:00''"
  "slack_post demo_ingest_env_race = (\<lambda>tid. Inr JNull)"
  "concurrent_inserts demo_ingest_env_race = [demo_ticket ''ADF-9'' ''run-1'']"
  "insert_fault demo_ingest_env_race = None"
  by (simp_all add: demo_ingest_env_race_def demo_ingest_env_def)

lemma demo_env_locked_sel:
  "RCA_API_KEY demo_ingest_env_locked = ''secret''"
  "AZURE_BLOB_ENABLED demo_ingest_env_locked = False"
  "ITSM_TOOL demo_ingest_env_locked = ''none''"
  "DB_TYPE demo_ingest_env_locked = Sqlite"
  "str_of_container demo_ingest_env_locked = (\<lambda>v. ''<repr>'')"
  "json_dumps demo_ingest_env_locked = (\<lambda>v. ''<json>'')"
  "call_ai_for_rca demo_ingest_env_locked = (\<lambda>desc source_type. JNull)"
  "utc_stamp demo_ingest_env_locked = ''20250101T000000''"
  "uuid6 demo_ingest_env_locked = ''abc123''"
  "utc_iso demo_ingest_env_locked = ''2025-01-01T00:00:00+00:00''"
  "slack_post demo_ingest_env_locked = (\<lambda>tid. Inr JNull)"
  "concurrent_inserts demo_ingest_env_locked = []"
  "insert_fault demo_ingest_env_locked = Some ''database is locked''"
  by (simp_all add: demo_ingest_env_locked_def demo_ingest_env_def)

lemma demo_env_failing_sel:
  "RCA_API_KEY demo_ingest_env_failing = ''secret''"
  "AZURE_BLOB_ENABLED demo_ingest_env_failing = False"
  "ITSM_TOOL demo_ingest_env_failing = ''jira''"
  "DB_TYPE demo_ingest_env_failing = Sqlite"
  "str_of_container demo_ingest_env_failing = (\<lambda>v. ''<repr>'')"
  "json_dumps demo_ingest_env_failing = (\<lambda>v. ''<json>'')"
  "call_ai_for_rca demo_ingest_env_failing = (\<lambda>desc source_type. JNull)"
  "utc_stamp demo_ingest_env_failing = ''20250101T000000''"
  "uuid6 demo_ingest_env_failing = ''abc123''"
  "utc_iso demo_ingest_env_failing = ''2025-01-01T00:00:00+00:00''"
  "create_jira_ticket demo_ingest_env_failing = (\<lambda>tid. Inl (RequestException ''Jira is down''))"
  "slack_post demo_ingest_env_failing = (\<lambda>tid. Inl (TypeError ''unhashable type''))"
  "concurrent_inserts demo_ingest_env_failing = []"
  "insert_fault demo_ingest_env_failing = None"
  by (simp_all add: demo_ingest_env_failing_def demo_ingest_env_def)

lemma demo_fields:
  "azure_fields E demo_body =
   Inr (JObj [(''alertRule'', JStr ''CopyPipeline''), (''alertId'', JStr ''run-1''),
              (''description'', JStr ''Gateway timeout'')],
        JStr ''Gateway timeout'', JStr ''CopyPipeline'', JStr ''run-1'', JStr ''N/A'', JStr ''Single'')"
  "azure_fields E demo_body_empty_run =
   Inr (JObj [(''alertRule'', JStr ''CopyPipeline''), (''alertId'', JStr ''''),
              (''description'', JStr ''Gateway timeout'')],
        JStr ''Gateway timeout'', JStr ''CopyPipeline'', JStr '''', JStr ''N/A'', JStr ''Single'')"
  "azure_fields E demo_body_odd_pipeline =
   Inr (JObj [(''alertRule'', JArr [JStr ''CopyPipeline'']), (''alertId'', JStr ''run-1''),
              (''description'', JStr ''Gateway timeout'')],
        JStr ''Gateway timeout'', JArr [JStr ''CopyPipeline''], JStr ''run-1'', JStr ''N/A'',
        JStr ''Single'')"
  by code_simp+

lemmas eval_store = select_ticket_by_run_id_def insert_ticket_def update_ticket_def log_audit_def
  audit_columns_def kwarg_def emit_def col_def sql_eq_def dict_get_def pstr_def

lemmas eval_ingest = azure_monitor_def azure_ingest_def duplicate_check_def blob_step_def
  insert_or_race_def ticket_data_def azure_after_insert_def itsm_step_def slack_step_def
  post_slack_notification_def Let_def fallback_rca_def is_unique_failure_def finops_team_of_def
  outcome_of_def ticket_ids_def audit_actions_def demo_store_def demo_ticket_def demo_tid_def
  empty_world_def show_7200



text \<open>
  At the endpoint: a request that loses the race for \<open>run-1\<close> is answered with the id of
  the ticket that won it, and a request whose insert hits a locked database is answered
  with status 500; neither adds a ticket row.
\<close>

lemma lost_race_at_the_endpoint:
  "outcome_of (azure_monitor demo_ingest_env_race empty_world (Some ''secret'') (Some demo_body)) =
     (Inr (JSONResponse (JObj
        [(''status'', JStr ''duplicate_race_condition''),
         (''ticket_id'', JStr ''ADF-9''),
         (''message'', JStr ''Race condition: Ticket for run_id run-1 was created by another request'')])),
      [SqlText ''ADF-9''], [])"
  "outcome_of (azure_monitor demo_ingest_env_locked empty_world (Some ''secret'') (Some demo_body)) =
     (Inl (HTTPException 500 ''Database error: database is locked''), [], [])"
  by (simp_all add: demo_fields classify_fallback eval_ingest eval_store demo_env_race_sel
        demo_env_locked_sel eval_text)

end
